theory Spec2Isabelle
  imports Complex_Main "HOL-Library.Word"
begin

section \<open>Numbers, categories and keyed objects\<close>

text \<open>
  The scoring pipeline of \<^verbatim>\<open>src/services/livabilityService.ts\<close> (the second,
  contribution-sum based version in that file) computes with JavaScript numbers. They
  are modelled as real numbers, plus the one non-real value that the code can produce
  from real inputs: \<^verbatim>\<open>NaN\<close>, which arises when arithmetic meets \<^verbatim>\<open>undefined\<close>.
  The operators \<open>+\<close> and \<open>*\<close> below are exact. The weighted sums of
  \<^verbatim>\<open>calculateSubScores\<close> and of the overall score, where the rounding error of a
  product or a sum can move the rounded result, are instead computed with the double
  operations \<open>fadd\<close> and \<open>fmul\<close> defined further down.
\<close>

datatype number = Num real | NaN

text \<open>Addition and multiplication propagate \<^verbatim>\<open>NaN\<close>.\<close>

instantiation number :: "{plus, times}"
begin

fun plus_number :: "number \<Rightarrow> number \<Rightarrow> number" where
  "plus_number (Num a) (Num b) = Num (a + b)"
| "plus_number _ _ = NaN"

fun times_number :: "number \<Rightarrow> number \<Rightarrow> number" where
  "times_number (Num a) (Num b) = Num (a * b)"
| "times_number _ _ = NaN"

instance ..

end

text \<open>\<^verbatim>\<open>a > b\<close> on numbers: every comparison with \<^verbatim>\<open>NaN\<close> is false.\<close>

fun num_gt :: "number \<Rightarrow> number \<Rightarrow> bool" where
  "num_gt (Num a) (Num b) = (a > b)"
| "num_gt _ _ = False"

text \<open>\<^verbatim>\<open>Math.round\<close>: the nearest integer, a tie going up.\<close>

definition js_round :: "real \<Rightarrow> int" where
  "js_round x = \<lfloor>x + 1 / 2\<rfloor>"

text \<open>
  Double arithmetic. A JavaScript number is an IEEE 754 double: in the binade from
  \<^verbatim>\<open>2^e\<close> up to \<^verbatim>\<open>2^(e+1)\<close> the doubles are the multiples of \<^verbatim>\<open>2^(e-52)\<close>. Every
  arithmetic operation returns the exact result rounded to the nearest double, a tie
  going to the even multiple.
  \<open>rne\<close> rounds a real to the nearest integer in that way, and \<open>fl\<close> rounds a real to
  the nearest double. The exponent range is not bounded here: overflow to
  \<^verbatim>\<open>Infinity\<close> and the reduced precision of subnormal numbers are not modelled.
  At a concrete number \<open>fl\<close> is evaluated through lemma \<open>fl_eval\<close> below, from the
  binade of the number.
\<close>

definition rne :: "real \<Rightarrow> int" where
  "rne x = (let f = \<lfloor>x\<rfloor>; r = x - of_int f
            in if r < 1 / 2 then f
               else if 1 / 2 < r then f + 1
               else if even f then f else f + 1)"

definition fl :: "real \<Rightarrow> real" where
  "fl x = (if x = 0 then 0
           else let e = \<lfloor>log 2 \<bar>x\<bar>\<rfloor>;
                    ulp = 2 powr (of_int e - 52)
                in of_int (rne (x / ulp)) * ulp)"

text \<open>A decimal literal of the source denotes the double nearest to it.\<close>

definition double :: "real \<Rightarrow> number" where
  "double x = Num (fl x)"

text \<open>\<^verbatim>\<open>a * b\<close> and \<^verbatim>\<open>a + b\<close> on doubles.\<close>

fun fmul :: "number \<Rightarrow> number \<Rightarrow> number" where
  "fmul (Num a) (Num b) = Num (fl (a * b))"
| "fmul _ _ = NaN"

fun fadd :: "number \<Rightarrow> number \<Rightarrow> number" where
  "fadd (Num a) (Num b) = Num (fl (a + b))"
| "fadd _ _ = NaN"

text \<open>\<^verbatim>\<open>a + b + c + ...\<close>: the additions are carried out from the left.\<close>

fun fsum :: "number list \<Rightarrow> number" where
  "fsum [] = Num 0"
| "fsum (a # bs) = foldl fadd a bs"

text \<open>The fixed category enum; it is the key set of every per-category object literal.\<close>

datatype category =
  Health | Education | Market | Transport | Walkability
  | Recreation | Safety | Accessibility | Police | Religious

fun category_name :: "category \<Rightarrow> string" where
  "category_name Health = ''health''"
| "category_name Education = ''education''"
| "category_name Market = ''market''"
| "category_name Transport = ''transport''"
| "category_name Walkability = ''walkability''"
| "category_name Recreation = ''recreation''"
| "category_name Safety = ''safety''"
| "category_name Accessibility = ''accessibility''"
| "category_name Police = ''police''"
| "category_name Religious = ''religious''"

text \<open>\<^verbatim>\<open>Object.keys(FACILITY_DISTANCES)\<close>, in the order of the literal.\<close>

definition categories :: "category list" where
  "categories = [Health, Education, Market, Transport, Walkability,
                 Recreation, Safety, Accessibility, Police, Religious]"

definition category_of :: "string \<Rightarrow> category option" where
  "category_of s =
     (if s = ''health'' then Some Health
      else if s = ''education'' then Some Education
      else if s = ''market'' then Some Market
      else if s = ''transport'' then Some Transport
      else if s = ''walkability'' then Some Walkability
      else if s = ''recreation'' then Some Recreation
      else if s = ''safety'' then Some Safety
      else if s = ''accessibility'' then Some Accessibility
      else if s = ''police'' then Some Police
      else if s = ''religious'' then Some Religious
      else None)"

text \<open>
  \<^verbatim>\<open>obj.hasOwnProperty(key)\<close> for an object literal whose keys are the ten categories.
\<close>

definition hasOwnProperty :: "string \<Rightarrow> bool" where
  "hasOwnProperty key = (category_of key \<noteq> None)"

text \<open>
  A property read \<^verbatim>\<open>obj[key]\<close> on such a literal does not stop at the own keys: a
  plain object inherits from \<^verbatim>\<open>Object.prototype\<close>, so the names below yield a
  function (or, for \<^verbatim>\<open>__proto__\<close>, the prototype object) instead of
  \<^verbatim>\<open>undefined\<close>. All of these values are truthy, none of them is a number, and
  none has a \<^verbatim>\<open>maxDistance\<close>, \<^verbatim>\<open>maxContribution\<close> or \<^verbatim>\<open>decayRate\<close> property.
\<close>

definition object_prototype_names :: "string list" where
  "object_prototype_names =
     [''constructor'', ''__defineGetter__'', ''__defineSetter__'', ''hasOwnProperty'',
      ''__lookupGetter__'', ''__lookupSetter__'', ''isPrototypeOf'',
      ''propertyIsEnumerable'', ''toString'', ''valueOf'', ''__proto__'',
      ''toLocaleString'']"

datatype 'a property = Own 'a | Inherited | Undefined

definition get_property :: "(category \<Rightarrow> 'a) \<Rightarrow> string \<Rightarrow> 'a property" where
  "get_property obj key =
     (case category_of key of
        Some c \<Rightarrow> Own (obj c)
      | None \<Rightarrow> if key \<in> set object_prototype_names then Inherited else Undefined)"

section \<open>Distance contribution\<close>

record decay =
  maxDistance :: real
  maxContribution :: real
  decayRate :: real

fun decayConfig :: "category \<Rightarrow> decay" where
  "decayConfig Health = \<lparr>maxDistance = 1000, maxContribution = 10, decayRate = 0.8\<rparr>"
| "decayConfig Education = \<lparr>maxDistance = 1000, maxContribution = 10, decayRate = 0.9\<rparr>"
| "decayConfig Market = \<lparr>maxDistance = 1000, maxContribution = 8, decayRate = 0.85\<rparr>"
| "decayConfig Transport = \<lparr>maxDistance = 1000, maxContribution = 10, decayRate = 0.95\<rparr>"
| "decayConfig Walkability = \<lparr>maxDistance = 1000, maxContribution = 12, decayRate = 0.85\<rparr>"
| "decayConfig Recreation = \<lparr>maxDistance = 1000, maxContribution = 8, decayRate = 0.8\<rparr>"
| "decayConfig Safety = \<lparr>maxDistance = 1000, maxContribution = 6, decayRate = 0.7\<rparr>"
| "decayConfig Accessibility = \<lparr>maxDistance = 1000, maxContribution = 4, decayRate = 0.9\<rparr>"
| "decayConfig Police = \<lparr>maxDistance = 1000, maxContribution = 8, decayRate = 0.6\<rparr>"
| "decayConfig Religious = \<lparr>maxDistance = 1000, maxContribution = 6, decayRate = 0.75\<rparr>"

text \<open>The body of \<^verbatim>\<open>calculateDistanceContribution\<close> once \<^verbatim>\<open>config\<close> is a config object.\<close>

definition decayed :: "decay \<Rightarrow> real \<Rightarrow> real" where
  "decayed config distance =
     (if distance > maxDistance config then 0
      else
        let normalizedDistance = distance / maxDistance config;
            contribution = maxContribution config * (1 - normalizedDistance) powr decayRate config;
            minContribution = maxContribution config * 0.1
        in max contribution minContribution)"

text \<open>
  \<^verbatim>\<open>const config = decayConfig[category] || decayConfig.health\<close>. With an inherited
  value as \<^verbatim>\<open>config\<close>, \<^verbatim>\<open>config.maxDistance\<close> is \<^verbatim>\<open>undefined\<close>: the guard
  \<^verbatim>\<open>distance > undefined\<close> is false and every later product is \<^verbatim>\<open>NaN\<close>.
\<close>

definition calculateDistanceContribution :: "real \<Rightarrow> string \<Rightarrow> number" where
  "calculateDistanceContribution distance category =
     (case get_property decayConfig category of
        Own config \<Rightarrow> Num (decayed config distance)
      | Inherited \<Rightarrow> NaN
      | Undefined \<Rightarrow> Num (decayed (decayConfig Health) distance))"

section \<open>Strings\<close>

text \<open>
  Strings are lists of characters. \<^verbatim>\<open>toLowerCase\<close> is modelled on the ASCII letters
  and \<^verbatim>\<open>trim\<close> on the ASCII white space; other characters are left as they are.
\<close>

definition lower_char :: "char \<Rightarrow> char" where
  "lower_char c =
     (case map_of (zip ''ABCDEFGHIJKLMNOPQRSTUVWXYZ'' ''abcdefghijklmnopqrstuvwxyz'') c of
        Some l \<Rightarrow> l
      | None \<Rightarrow> c)"

definition toLowerCase :: "string \<Rightarrow> string" where
  "toLowerCase s = map lower_char s"

fun startsWith :: "string \<Rightarrow> string \<Rightarrow> bool" where
  "startsWith s [] = True"
| "startsWith [] (c # cs) = False"
| "startsWith (x # xs) (c # cs) = (x = c \<and> startsWith xs cs)"

text \<open>\<^verbatim>\<open>s.includes(sub)\<close>: \<open>sub\<close> occurs in \<open>s\<close> as a contiguous substring.\<close>

fun includes_str :: "string \<Rightarrow> string \<Rightarrow> bool" where
  "includes_str [] sub = (sub = [])"
| "includes_str (x # xs) sub = (startsWith (x # xs) sub \<or> includes_str xs sub)"

definition is_space :: "char \<Rightarrow> bool" where
  "is_space c = (c \<in> set [CHR '' '', CHR 0x09, CHR 0x0A, CHR 0x0B, CHR 0x0C, CHR 0x0D])"

definition trim :: "string \<Rightarrow> string" where
  "trim s = rev (dropWhile is_space (rev (dropWhile is_space s)))"

definition digit_char :: "nat \<Rightarrow> char" where
  "digit_char n = ''0123456789'' ! n"

text \<open>Decimal rendering of an integer, as a template literal or \<^verbatim>\<open>toString\<close> writes it.\<close>

function show_nat :: "nat \<Rightarrow> string" where
  "show_nat n = (if n < 10 then [digit_char n] else show_nat (n div 10) @ [digit_char (n mod 10)])"
  by pat_completeness auto
termination
  by (relation "measure id") auto

declare show_nat.simps [simp del]

definition show_int :: "int \<Rightarrow> string" where
  "show_int i = (if i < 0 then CHR ''-'' # show_nat (nat (- i)) else show_nat (nat i))"

section \<open>Geo utility\<close>

text \<open>\<^verbatim>\<open>Math.atan2(y, x)\<close> on real arguments.\<close>

definition atan2 :: "real \<Rightarrow> real \<Rightarrow> real" where
  "atan2 y x =
     (if x > 0 then arctan (y / x)
      else if x < 0 then (if y \<ge> 0 then arctan (y / x) + pi else arctan (y / x) - pi)
      else if y > 0 then pi / 2
      else if y < 0 then - (pi / 2)
      else 0)"

text \<open>Haversine distance in metres: \<^verbatim>\<open>calculateDistance\<close>.\<close>

definition calculateDistance :: "real \<Rightarrow> real \<Rightarrow> real \<Rightarrow> real \<Rightarrow> real" where
  "calculateDistance lat1 lng1 lat2 lng2 =
     (let R = 6371000;
          dLat = ((lat2 - lat1) * pi) / 180;
          dLng = ((lng2 - lng1) * pi) / 180;
          a = sin (dLat / 2) * sin (dLat / 2)
              + cos ((lat1 * pi) / 180) * cos ((lat2 * pi) / 180)
                * sin (dLng / 2) * sin (dLng / 2);
          c = 2 * atan2 (sqrt a) (sqrt (1 - a))
      in R * c)"

section \<open>Raw elements and the category classifier\<close>

text \<open>
  A raw element of the map data service: every field may be absent. Tag values are
  strings. A coordinate or an id that is absent or 0 is falsy.
\<close>

record center =
  c_lat :: "real option"
  c_lon :: "real option"

record element =
  e_id :: "int option"
  e_lat :: "real option"
  e_lon :: "real option"
  e_center :: "center option"
  e_tags :: "(string \<rightharpoonup> string) option"

text \<open>\<^verbatim>\<open>element.tags?.key\<close>; \<open>None\<close> stands for \<^verbatim>\<open>undefined\<close>.\<close>

definition tag :: "element \<Rightarrow> string \<Rightarrow> string option" where
  "tag element key = (case e_tags element of None \<Rightarrow> None | Some t \<Rightarrow> t key)"

text \<open>\<^verbatim>\<open>element.tags?.key === value\<close>\<close>

definition tag_is :: "element \<Rightarrow> string \<Rightarrow> string \<Rightarrow> bool" where
  "tag_is element key v = (tag element key = Some v)"

text \<open>Truthiness of \<^verbatim>\<open>element.tags?.key\<close>: present and not the empty string.\<close>

definition tag_set :: "element \<Rightarrow> string \<Rightarrow> bool" where
  "tag_set element key = (case tag element key of None \<Rightarrow> False | Some v \<Rightarrow> v \<noteq> [])"

text \<open>\<^verbatim>\<open>element.tags.name.toLowerCase().includes(sub)\<close>, for a name that is present.\<close>

definition name_includes :: "element \<Rightarrow> string \<Rightarrow> bool" where
  "name_includes element sub =
     (case tag element ''name'' of None \<Rightarrow> False | Some n \<Rightarrow> includes_str (toLowerCase n) sub)"

text \<open>
  \<^verbatim>\<open>element.tags?.name && (name includes s1 || name includes s2 || ...)\<close>
\<close>

definition name_includes_any :: "element \<Rightarrow> string list \<Rightarrow> bool" where
  "name_includes_any element subs =
     (tag_set element ''name'' \<and> list_ex (name_includes element) subs)"

text \<open>\<^verbatim>\<open>element.tags?.key === v1 || element.tags?.key === v2 || ...\<close>\<close>

definition tag_in :: "element \<Rightarrow> string \<Rightarrow> string list \<Rightarrow> bool" where
  "tag_in element key vs = list_ex (tag_is element key) vs"

definition is_education :: "element \<Rightarrow> bool" where
  "is_education element =
     (tag_in element ''amenity''
        [''school'', ''university'', ''college'', ''kindergarten'', ''library'']
      \<or> name_includes_any element
        [''sekolah'', ''sd '', '' smp'', '' sma'', ''smk'', ''universitas'', ''univ'',
         ''kampus'', ''tk'', ''paud'', ''perpustakaan'', ''library''])"

definition is_police :: "element \<Rightarrow> bool" where
  "is_police element =
     (tag_is element ''amenity'' ''police''
      \<or> name_includes_any element
        [''polisi'', ''polres'', ''polsek'', ''polda'', ''satlantas'', ''satpol'', ''pp'',
         ''police''])"

definition is_market :: "element \<Rightarrow> bool" where
  "is_market element =
     (tag_set element ''shop''
      \<or> tag_in element ''amenity''
        [''restaurant'', ''cafe'', ''fast_food'', ''food_court'', ''bar'', ''pub'',
         ''ice_cream'', ''coffee_shop'', ''fuel'', ''gas_station'', ''petrol_station'',
         ''service_station'']
      \<or> (tag_is element ''amenity'' ''community_centre''
          \<and> name_includes_any element
            [''pasar'', ''market'', ''pusat'', ''center'', ''centre''])
      \<or> name_includes_any element
        [''spbu'', ''pom bensin'', ''gas station'', ''petrol'', ''fuel'', ''bensin'',
         ''solar'', ''pertamina'', ''shell'', ''bp'', ''esso'', ''caltex'', ''toko'',
         ''warung'', ''shop'', ''store'', ''market'', ''mall'', ''plaza''])"

definition is_health :: "element \<Rightarrow> bool" where
  "is_health element =
     (tag_in element ''amenity''
        [''hospital'', ''clinic'', ''doctors'', ''dentist'', ''pharmacy'', ''veterinary'']
      \<or> (tag_set element ''name''
          \<and> (name_includes element ''rumah sakit''
             \<or> (name_includes element ''rs ''
                 \<and> \<not> name_includes element ''sekolah''
                 \<and> \<not> name_includes element ''sd''
                 \<and> \<not> name_includes element ''smp''
                 \<and> \<not> name_includes element ''sma''
                 \<and> \<not> name_includes element ''smk'')
             \<or> list_ex (name_includes element)
                 [''rsud'', ''klinik'', ''apotek'', ''apotik'', ''dokter'', ''puskesmas'',
                  ''poli''])))"

definition is_transport :: "element \<Rightarrow> bool" where
  "is_transport element =
     (tag_in element ''public_transport'' [''platform'', ''station'', ''stop_position'']
      \<or> tag_is element ''highway'' ''bus_stop''
      \<or> tag_in element ''railway'' [''station'', ''halt'', ''tram_stop'']
      \<or> name_includes_any element
        [''halte'', ''bus stop'', ''terminal'', ''stasiun'', ''station'', ''mrt'', ''lrt'',
         ''transjakarta'', ''angkot''])"

definition is_religious :: "element \<Rightarrow> bool" where
  "is_religious element =
     (tag_in element ''amenity''
        [''place_of_worship'', ''mosque'', ''church'', ''temple'', ''synagogue'',
         ''hindu_temple'', ''buddhist_temple'']
      \<or> name_includes_any element
        [''masjid'', ''gudang'', ''gereja'', ''katedral'', ''synagogue'', ''hindu_temple'',
         ''buddhist_temple'', ''pura'', ''candi'', ''vihara''])"

definition is_recreation :: "element \<Rightarrow> bool" where
  "is_recreation element =
     (tag_in element ''leisure''
        [''park'', ''playground'', ''sports_centre'', ''fitness_centre'', ''swimming_pool'',
         ''garden'']
      \<or> tag_in element ''amenity'' [''cinema'', ''theatre'', ''community_centre'']
      \<or> name_includes_any element
        [''taman'', ''park'', ''playground'', ''kolam renang'', ''swimming'', ''gym'',
         ''fitness'', ''bioskop'', ''cinema'', ''teater'', ''theatre'', ''pusat komunitas''])"

definition is_walkability :: "element \<Rightarrow> bool" where
  "is_walkability element =
     (tag_in element ''highway'' [''footway'', ''pedestrian'', ''path'', ''steps'', ''bridleway'']
      \<or> tag_set element ''sidewalk''
      \<or> tag_in element ''footway'' [''sidewalk'', ''crossing'']
      \<or> tag_set element ''pedestrian''
      \<or> tag_in element ''route'' [''foot'', ''hiking'', ''walking'']
      \<or> tag_in element ''amenity'' [''bench'', ''drinking_water'']
      \<or> tag_is element ''highway'' ''street_lamp''
      \<or> tag_is element ''lit'' ''yes''
      \<or> tag_set element ''traffic_calming''
      \<or> tag_set element ''maxspeed''
      \<or> tag_set element ''zone_traffic''
      \<or> tag_in element ''natural'' [''tree_row'', ''hedge'']
      \<or> tag_in element ''landuse'' [''grass'', ''meadow'']
      \<or> (tag_is element ''highway'' ''crossing'' \<and> tag_is element ''foot'' ''designated'')
      \<or> (tag_is element ''highway'' ''crossing''
          \<and> tag_in element ''crossing'' [''zebra'', ''traffic_signals'', ''uncontrolled''])
      \<or> (tag_is element ''bridge'' ''yes''
          \<and> tag_in element ''highway'' [''footway'', ''pedestrian'', ''path''])
      \<or> (tag_is element ''tunnel'' ''yes''
          \<and> tag_in element ''highway'' [''footway'', ''pedestrian'', ''path'']))"

definition is_accessibility :: "element \<Rightarrow> bool" where
  "is_accessibility element =
     (tag_is element ''barrier'' ''kerb''
      \<or> tag_in element ''kerb'' [''lowered'', ''flush'']
      \<or> tag_is element ''highway'' ''elevator''
      \<or> (tag_is element ''highway'' ''steps'' \<and> tag_set element ''incline'')
      \<or> (tag_is element ''amenity'' ''parking'' \<and> tag_is element ''access'' ''designated'')
      \<or> tag_is element ''tactile_paving'' ''yes''
      \<or> (tag_is element ''amenity'' ''toilets'' \<and> tag_is element ''wheelchair'' ''yes''))"

definition is_safety :: "element \<Rightarrow> bool" where
  "is_safety element =
     (tag_is element ''highway'' ''street_lamp''
      \<or> tag_is element ''lit'' ''yes''
      \<or> tag_is element ''highway'' ''crossing''
      \<or> tag_set element ''traffic_calming''
      \<or> tag_set element ''maxspeed''
      \<or> tag_set element ''sidewalk''
      \<or> tag_in element ''amenity'' [''fire_station'', ''hospital'']
      \<or> tag_is element ''man_made'' ''surveillance''
      \<or> tag_is element ''surveillance_type'' ''camera'')"

text \<open>
  The cascade of \<^verbatim>\<open>if / else if\<close> that sets \<^verbatim>\<open>actualCategory\<close> in
  \<^verbatim>\<open>processFacilities\<close>; \<open>category\<close> is the query bucket, kept when no rule matches.
\<close>

definition actualCategory :: "element \<Rightarrow> string \<Rightarrow> string" where
  "actualCategory element category =
     (if is_education element then ''education''
      else if is_police element then ''police''
      else if is_market element then ''market''
      else if is_health element then ''health''
      else if is_transport element then ''transport''
      else if is_religious element then ''religious''
      else if is_recreation element then ''recreation''
      else if is_walkability element then ''walkability''
      else if is_accessibility element then ''accessibility''
      else if is_safety element then ''safety''
      else category)"

section \<open>Facility processor\<close>

record facility =
  f_id :: string
  f_name :: string
  f_category :: string
  f_lng :: real
  f_lat :: real
  f_distance :: int
  f_contribution :: number
  f_tags :: "(string \<rightharpoonup> string) option"

text \<open>\<^verbatim>\<open>element.lat || (element.center && element.center.lat) || 0\<close>\<close>

definition coordinate :: "real option \<Rightarrow> real option option \<Rightarrow> real" where
  "coordinate direct via_center =
     (let fallback = (case via_center of Some (Some y) \<Rightarrow> y | _ \<Rightarrow> 0)
      in case direct of None \<Rightarrow> fallback | Some x \<Rightarrow> if x \<noteq> 0 then x else fallback)"

text \<open>The first truthy value of a chain \<^verbatim>\<open>a || b || ... || dflt\<close> of tag reads.\<close>

fun first_tag :: "element \<Rightarrow> string list \<Rightarrow> string \<Rightarrow> string" where
  "first_tag element [] dflt = dflt"
| "first_tag element (k # ks) dflt =
     (case tag element k of
        None \<Rightarrow> first_tag element ks dflt
      | Some v \<Rightarrow> if v \<noteq> [] then v else first_tag element ks dflt)"

definition facility_name :: "element \<Rightarrow> string \<Rightarrow> string" where
  "facility_name element category =
     first_tag element
       [''name'', ''shop'', ''amenity'', ''leisure'', ''highway'', ''traffic_calming'',
        ''crossing_ref'', ''man_made'', ''barrier'', ''kerb'', ''wheelchair'',
        ''tactile_paving'']
       (category @ '' facility'')"

text \<open>\<^verbatim>\<open>element.id || index\<close>\<close>

definition id_or_index :: "element \<Rightarrow> nat \<Rightarrow> int" where
  "id_or_index element index =
     (case e_id element of None \<Rightarrow> int index | Some i \<Rightarrow> if i \<noteq> 0 then i else int index)"

text \<open>The callback of \<^verbatim>\<open>elements.map\<close> in \<^verbatim>\<open>processFacilities\<close>.\<close>

definition to_facility :: "string \<Rightarrow> real \<Rightarrow> real \<Rightarrow> element \<Rightarrow> nat \<Rightarrow> facility" where
  "to_facility category userLat userLng element index =
     (let lat = coordinate (e_lat element) (map_option c_lat (e_center element));
          lng = coordinate (e_lon element) (map_option c_lon (e_center element));
          distance = calculateDistance userLat userLng lat lng;
          actual = actualCategory element category;
          name = facility_name element actual;
          contribution = calculateDistanceContribution distance actual
      in \<lparr>f_id = actual @ ''-'' @ show_int (id_or_index element index),
          f_name = name,
          f_category = actual,
          f_lng = lng,
          f_lat = lat,
          f_distance = js_round distance,
          f_contribution = contribution,
          f_tags = e_tags element\<rparr>)"

text \<open>
  The callback of \<^verbatim>\<open>.filter\<close>: \<^verbatim>\<open>decayConfig[f.category] || 1000\<close> over the table
  of maximum distances, then \<^verbatim>\<open>f.distance <= maxDistance\<close>. Compared with an
  inherited, non-numeric value the test is false.
\<close>

definition within_max_distance :: "facility \<Rightarrow> bool" where
  "within_max_distance f =
     (case get_property (\<lambda>c. 1000 :: int) (f_category f) of
        Own maxDist \<Rightarrow> f_distance f \<le> maxDist
      | Inherited \<Rightarrow> False
      | Undefined \<Rightarrow> f_distance f \<le> 1000)"

text \<open>The callback of \<^verbatim>\<open>findIndex\<close> in the first deduplication pass.\<close>

definition isDuplicate :: "facility \<Rightarrow> facility \<Rightarrow> bool" where
  "isDuplicate existing fac =
     (let coordDistance =
            calculateDistance (f_lat existing) (f_lng existing) (f_lat fac) (f_lng fac);
          existingName = trim (toLowerCase (f_name existing));
          facilityName = trim (toLowerCase (f_name fac));
          nameSimilar =
            (existingName = facilityName
             \<or> includes_str existingName facilityName
             \<or> includes_str facilityName existingName
             \<or> (includes_str existingName ''sd'' \<and> includes_str facilityName ''sd'')
             \<or> (includes_str existingName ''sekolah'' \<and> includes_str facilityName ''sekolah''))
      in coordDistance < 50 \<and> nameSimilar)"

text \<open>\<^verbatim>\<open>findIndex\<close>: the first index that satisfies the test; \<open>None\<close> stands for -1.\<close>

fun findIndex :: "('a \<Rightarrow> bool) \<Rightarrow> 'a list \<Rightarrow> nat option" where
  "findIndex P [] = None"
| "findIndex P (x # xs) = (if P x then Some 0 else map_option Suc (findIndex P xs))"

text \<open>One step of the first \<^verbatim>\<open>reduce\<close>: proximity and name deduplication.\<close>

definition dedup_step :: "facility list \<Rightarrow> facility \<Rightarrow> facility list" where
  "dedup_step acc fac =
     (case findIndex (\<lambda>existing. isDuplicate existing fac) acc of
        None \<Rightarrow> acc @ [fac]
      | Some existingIndex \<Rightarrow>
          if num_gt (f_contribution fac) (f_contribution (acc ! existingIndex))
          then acc[existingIndex := fac]
          else acc)"

definition uniqueFacilities :: "facility list \<Rightarrow> facility list" where
  "uniqueFacilities facilities = foldl dedup_step [] facilities"

text \<open>One step of the second \<^verbatim>\<open>reduce\<close>: deduplication by id.\<close>

definition id_step :: "facility list \<Rightarrow> facility \<Rightarrow> facility list" where
  "id_step acc fac =
     (case findIndex (\<lambda>existing. f_id existing = f_id fac) acc of
        None \<Rightarrow> acc @ [fac]
      | Some existingIndex \<Rightarrow> acc)"

definition finalFacilities :: "facility list \<Rightarrow> facility list" where
  "finalFacilities unique = foldl id_step [] unique"

definition processFacilities ::
    "element list \<Rightarrow> string \<Rightarrow> real \<Rightarrow> real \<Rightarrow> facility list" where
  "processFacilities elements category userLat userLng =
     (let facilities =
            filter within_max_distance
              (map (\<lambda>(element, index). to_facility category userLat userLng element index)
                 (zip elements [0 ..< length elements]))
      in finalFacilities (uniqueFacilities facilities))"

section \<open>Score aggregator\<close>

text \<open>
  \<^verbatim>\<open>facilityCounts\<close> and \<^verbatim>\<open>categoryScores\<close> are object literals with exactly the ten
  category keys; writes to them are guarded by \<^verbatim>\<open>hasOwnProperty\<close>. They are
  modelled as functions on the category enum.
\<close>

type_synonym counts = "category \<Rightarrow> nat"
type_synonym scores = "category \<Rightarrow> number"

text \<open>\<^verbatim>\<open>facility.tags?.key === value\<close>\<close>

definition ftag_is :: "facility \<Rightarrow> string \<Rightarrow> string \<Rightarrow> bool" where
  "ftag_is f key v = (case f_tags f of None \<Rightarrow> False | Some t \<Rightarrow> t key = Some v)"

definition add_score :: "scores \<Rightarrow> category \<Rightarrow> number \<Rightarrow> scores" where
  "add_score categoryScores c x = categoryScores(c := categoryScores c + x)"

text \<open>
  The callback of \<^verbatim>\<open>facilities.forEach\<close> for the facilities of the query results:
  the count is incremented and the contribution added with the dampening per category.
\<close>

definition count_facility :: "counts \<times> scores \<Rightarrow> facility \<Rightarrow> counts \<times> scores" where
  "count_facility acc fac =
     (case acc of (facilityCounts, categoryScores) \<Rightarrow>
        (case category_of (f_category fac) of
           None \<Rightarrow> (facilityCounts, categoryScores)
         | Some c \<Rightarrow>
             let facilityCounts' = facilityCounts(c := facilityCounts c + 1) in
             if c = Walkability then
               let reducedContribution = f_contribution fac * Num 0.25;
                   categoryScores' = add_score categoryScores Walkability reducedContribution;
                   isLighting = (ftag_is fac ''highway'' ''street_lamp'' \<or> ftag_is fac ''lit'' ''yes'')
               in (facilityCounts',
                   if isLighting then add_score categoryScores' Safety reducedContribution
                   else categoryScores')
             else if c = Safety then
               let isMajorSafety = ftag_is fac ''amenity'' ''fire_station''
               in (facilityCounts',
                   if isMajorSafety then add_score categoryScores Safety (f_contribution fac)
                   else add_score categoryScores Safety (f_contribution fac * Num 0.25))
             else (facilityCounts', add_score categoryScores c (f_contribution fac))))"

text \<open>\<^verbatim>\<open>cap\<close>: \<^verbatim>\<open>Math.min(100, Math.round(val))\<close>\<close>

fun cap :: "number \<Rightarrow> number" where
  "cap (Num val) = Num (min 100 (of_int (js_round val)))"
| "cap NaN = NaN"

record subscores =
  services :: number
  mobility :: number
  safety :: number
  environment :: number

text \<open>
  The weighted sums are evaluated in double arithmetic: every literal is a double,
  every product is rounded, and so is every sum, from the left. A weighted sum that
  overflows in the code is \<^verbatim>\<open>Infinity\<close> there and a number above 100 here, and
  \<^verbatim>\<open>cap\<close> returns 100 for both.
\<close>

definition calculateSubScores :: "scores \<Rightarrow> subscores" where
  "calculateSubScores categoryScores =
     \<lparr>services = cap (fsum [fmul (categoryScores Health) (double 1.2),
                             fmul (categoryScores Education) (double 1.0),
                             fmul (categoryScores Market) (double 0.8),
                             fmul (categoryScores Religious) (double 0.8)]),
      mobility = cap (fsum [fmul (categoryScores Transport) (double 1.5),
                            fmul (categoryScores Walkability) (double 0.5)]),
      safety = cap (fsum [fmul (categoryScores Safety) (double 0.6),
                          fmul (categoryScores Police) (double 2.0),
                          fmul (categoryScores Health) (double 0.8),
                          fmul (categoryScores Accessibility) (double 1.0)]),
      environment = cap (fmul (categoryScores Recreation) (double 2.5))\<rparr>"

text \<open>
  The weighted sum of the sub-scores in \<^verbatim>\<open>calculateLivabilityScore\<close>, in double
  arithmetic as well; it is not rounded to an integer.
\<close>

definition overall_score :: "subscores \<Rightarrow> number" where
  "overall_score sub =
     fsum [fmul (services sub) (double 0.3), fmul (mobility sub) (double 0.25),
           fmul (safety sub) (double 0.25), fmul (environment sub) (double 0.2)]"

section \<open>Custom points of interest\<close>

record poi =
  p_id :: string
  p_name :: string
  p_category :: string
  p_lng :: real
  p_lat :: real

text \<open>
  \<^verbatim>\<open>customPoiService.getPOIsNearLocation\<close> over the stored points; the service has
  its own copy of the Haversine function, identical to \<^verbatim>\<open>calculateDistance\<close>.
\<close>

definition getPOIsNearLocation :: "poi list \<Rightarrow> real \<Rightarrow> real \<Rightarrow> real \<Rightarrow> poi list" where
  "getPOIsNearLocation allPOIs lat lng radiusMeters =
     filter (\<lambda>p. calculateDistance lat lng (p_lat p) (p_lng p) \<le> radiusMeters) allPOIs"

text \<open>The callback of \<^verbatim>\<open>customPOIs.map\<close>; the tags are \<^verbatim>\<open>{ custom: true }\<close>.\<close>

definition custom_facility :: "real \<Rightarrow> real \<Rightarrow> poi \<Rightarrow> facility" where
  "custom_facility lat lng p =
     (let distance = calculateDistance lat lng (p_lat p) (p_lng p);
          contribution = calculateDistanceContribution distance (p_category p)
      in \<lparr>f_id = p_id p,
          f_name = p_name p @ '' (Custom)'',
          f_category = (if p_category p = ''custom'' then ''recreation'' else p_category p),
          f_lng = p_lng p,
          f_lat = p_lat p,
          f_distance = js_round distance,
          f_contribution = contribution,
          f_tags = Some [''custom'' \<mapsto> ''true'']\<rparr>)"

text \<open>The callback of \<^verbatim>\<open>customFacilities.forEach\<close>.\<close>

definition count_custom :: "counts \<times> scores \<Rightarrow> facility \<Rightarrow> counts \<times> scores" where
  "count_custom acc fac =
     (case acc of (facilityCounts, categoryScores) \<Rightarrow>
        (case category_of (f_category fac) of
           None \<Rightarrow> (facilityCounts, categoryScores)
         | Some c \<Rightarrow>
             (facilityCounts(c := facilityCounts c + 1),
              add_score categoryScores c (f_contribution fac))))"

section \<open>Query text\<close>

text \<open>
  The templates of \<^verbatim>\<open>generateOverpassQuery\<close>, line by line; \<^verbatim>\<open>${distance}\<close> is
  already written out as 1000, the value of \<^verbatim>\<open>FACILITY_DISTANCES[category] || 1000\<close>
  for every category. The placeholders \<^verbatim>\<open>{lat}\<close> and \<^verbatim>\<open>{lng}\<close> are replaced later.
\<close>

definition query_health :: string where
  \<open>query_health =
     ''\<newline>''
     @ ''      [out:json];\<newline>''
     @ ''      (\<newline>''
     @ ''        node["amenity"~"^(hospital|clinic|doctors|dentist|pharmacy|veterinary)$"](around:1000,{lat},{lng});\<newline>''
     @ ''        way["amenity"~"^(hospital|clinic|doctors|dentist|pharmacy|veterinary)$"](around:1000,{lat},{lng});\<newline>''
     @ ''        node["name"~"^(rumah sakit|rsud|klinik|apotek|apotik|dokter|puskesmas|poli)"](around:1000,{lat},{lng});\<newline>''
     @ ''        way["name"~"^(rumah sakit|rsud|klinik|apotek|apotik|dokter|puskesmas|poli)"](around:1000,{lat},{lng});\<newline>''
     @ ''      );\<newline>''
     @ ''      out center;\<newline>''
     @ ''    ''\<close>

definition query_education :: string where
  \<open>query_education =
     ''\<newline>''
     @ ''      [out:json];\<newline>''
     @ ''      (\<newline>''
     @ ''        node["amenity"~"^(school|university|college|kindergarten|library)$"](around:1000,{lat},{lng});\<newline>''
     @ ''        way["amenity"~"^(school|university|college|kindergarten|library)$"](around:1000,{lat},{lng});\<newline>''
     @ ''        node["name"~"^(sekolah|sd|smp|sma|smk|universitas|univ|kampus|tk|paud|perpustakaan|library)"](around:1000,{lat},{lng});\<newline>''
     @ ''        way["name"~"^(sekolah|sd|smp|sma|smk|universitas|univ|kampus|tk|paud|perpustakaan|library)"](around:1000,{lat},{lng});\<newline>''
     @ ''      );\<newline>''
     @ ''      out center;\<newline>''
     @ ''    ''\<close>

definition query_market :: string where
  \<open>query_market =
     ''\<newline>''
     @ ''      [out:json];\<newline>''
     @ ''      (\<newline>''
     @ ''        // GRAB ALL SHOPS - OSM already knows what's a shop!\<newline>''
     @ ''        node["shop"](around:1000,{lat},{lng});\<newline>''
     @ ''        way["shop"](around:1000,{lat},{lng});\<newline>''
     @ ''        \<newline>''
     @ ''        // GRAB ALL RESTAURANTS/FOOD ESTABLISHMENTS\<newline>''
     @ ''        node["amenity"~"^(restaurant|cafe|fast_food|food_court|bar|pub|ice_cream|coffee_shop)$"](around:1000,{lat},{lng});\<newline>''
     @ ''        way["amenity"~"^(restaurant|cafe|fast_food|food_court|bar|pub|ice_cream|coffee_shop)$"](around:1000,{lat},{lng});\<newline>''
     @ ''        \<newline>''
     @ ''        // GRAB ALL AMENITIES THAT COULD BE SHOPS\<newline>''
     @ ''        node["amenity"~"^(shop|store|market|retail|food|beverage)$"](around:1000,{lat},{lng});\<newline>''
     @ ''        way["amenity"~"^(shop|store|market|retail|food|beverage)$"](around:1000,{lat},{lng});\<newline>''
     @ ''        \<newline>''
     @ ''        // GRAB ALL FUEL STATIONS AND GAS STATIONS\<newline>''
     @ ''        node["amenity"~"^(fuel|gas_station|petrol_station|service_station)$"](around:1000,{lat},{lng});\<newline>''
     @ ''        way["amenity"~"^(fuel|gas_station|petrol_station|service_station)$"](around:1000,{lat},{lng});\<newline>''
     @ ''        \<newline>''
     @ ''        // GRAB BY NAME PATTERNS (Indonesian and English) - more specific to avoid recreation\<newline>''
     @ ''        node["name"~"^(spbu|pom bensin|gas station|petrol|fuel|bensin|solar|pertamina|shell|bp|esso|caltex|toko|warung|shop|store|market|mall|plaza)"](around:1000,{lat},{lng});\<newline>''
     @ ''        way["name"~"^(spbu|pom bensin|gas station|petrol|fuel|bensin|solar|pertamina|shell|bp|esso|caltex|toko|warung|shop|store|market|mall|plaza)"](around:1000,{lat},{lng});\<newline>''
     @ ''        \<newline>''
     @ ''        // Community centers that might be market-like\<newline>''
     @ ''        node["amenity"="community_centre"]["name"~"^(pasar|market|pusat|center|centre)"](around:1000,{lat},{lng});\<newline>''
     @ ''        way["amenity"="community_centre"]["name"~"^(pasar|market|pusat|center|centre)"](around:1000,{lat},{lng});\<newline>''
     @ ''      );\<newline>''
     @ ''      out center;\<newline>''
     @ ''    ''\<close>

definition query_transport :: string where
  \<open>query_transport =
     ''\<newline>''
     @ ''      [out:json];\<newline>''
     @ ''      (\<newline>''
     @ ''        node["public_transport"~"^(platform|station|stop_position)$"](around:1000,{lat},{lng});\<newline>''
     @ ''        node["highway"="bus_stop"](around:1000,{lat},{lng});\<newline>''
     @ ''        node["railway"~"^(station|halt|tram_stop)$"](around:1000,{lat},{lng});\<newline>''
     @ ''        way["public_transport"~"^(platform|station)$"](around:1000,{lat},{lng});\<newline>''
     @ ''        node["name"~"^(halte|bus stop|terminal|stasiun|station|mrt|lrt|transjakarta|angkot)"](around:1000,{lat},{lng});\<newline>''
     @ ''        way["name"~"^(halte|bus stop|terminal|stasiun|station|mrt|lrt|transjakarta|angkot)"](around:1000,{lat},{lng});\<newline>''
     @ ''      );\<newline>''
     @ ''      out center;\<newline>''
     @ ''    ''\<close>

definition query_walkability :: string where
  \<open>query_walkability =
     ''\<newline>''
     @ ''      [out:json];\<newline>''
     @ ''      (\<newline>''
     @ ''        // Pedestrian-friendly streets and paths\<newline>''
     @ ''        way["highway"~"^(footway|pedestrian|path|steps|bridleway)$"](around:1000,{lat},{lng});\<newline>''
     @ ''        way["highway"="residential"]["foot"="designated"](around:1000,{lat},{lng});\<newline>''
     @ ''        way["highway"="service"]["foot"="designated"](around:1000,{lat},{lng});\<newline>''
     @ ''        \<newline>''
     @ ''        // Sidewalks and pedestrian infrastructure\<newline>''
     @ ''        way["sidewalk"~"^(both|left|right|separate)$"](around:1000,{lat},{lng});\<newline>''
     @ ''        way["footway"="sidewalk"](around:1000,{lat},{lng});\<newline>''
     @ ''        way["footway"="crossing"](around:1000,{lat},{lng});\<newline>''
     @ ''        \<newline>''
     @ ''        // Pedestrian crossings and safety\<newline>''
     @ ''        node["highway"="crossing"]["foot"="designated"](around:1000,{lat},{lng});\<newline>''
     @ ''        node["highway"="crossing"]["crossing"="zebra"](around:1000,{lat},{lng});\<newline>''
     @ ''        node["highway"="crossing"]["crossing"="traffic_signals"](around:1000,{lat},{lng});\<newline>''
     @ ''        node["highway"="crossing"]["crossing"="uncontrolled"](around:1000,{lat},{lng});\<newline>''
     @ ''        \<newline>''
     @ ''        // Pedestrian bridges and tunnels\<newline>''
     @ ''        way["bridge"="yes"]["highway"~"^(footway|pedestrian|path)$"](around:1000,{lat},{lng});\<newline>''
     @ ''        way["tunnel"="yes"]["highway"~"^(footway|pedestrian|path)$"](around:1000,{lat},{lng});\<newline>''
     @ ''        \<newline>''
     @ ''        // Pedestrian zones and areas\<newline>''
     @ ''        way["pedestrian"="yes"](around:1000,{lat},{lng});\<newline>''
     @ ''        way["pedestrian"="designated"](around:1000,{lat},{lng});\<newline>''
     @ ''        way["pedestrian"="zone"](around:1000,{lat},{lng});\<newline>''
     @ ''        \<newline>''
     @ ''        // Walking routes and trails\<newline>''
     @ ''        way["route"="foot"](around:1000,{lat},{lng});\<newline>''
     @ ''        way["route"="hiking"](around:1000,{lat},{lng});\<newline>''
     @ ''        way["route"="walking"](around:1000,{lat},{lng});\<newline>''
     @ ''        \<newline>''
     @ ''        // Pedestrian-friendly amenities\<newline>''
     @ ''        node["amenity"="bench"](around:1000,{lat},{lng});\<newline>''
     @ ''        way["amenity"="bench"](around:1000,{lat},{lng});\<newline>''
     @ ''        node["amenity"="drinking_water"](around:1000,{lat},{lng});\<newline>''
     @ ''        way["amenity"="drinking_water"](around:1000,{lat},{lng});\<newline>''
     @ ''        \<newline>''
     @ ''        // Street furniture for pedestrians\<newline>''
     @ ''        node["highway"="street_lamp"](around:1000,{lat},{lng});\<newline>''
     @ ''        way["highway"]["lit"="yes"](around:1000,{lat},{lng});\<newline>''
     @ ''        \<newline>''
     @ ''        // Traffic calming for pedestrian safety\<newline>''
     @ ''        way["traffic_calming"~"^(speed_bump|table|chicane|hump|cushion)$"](around:1000,{lat},{lng});\<newline>''
     @ ''        \<newline>''
     @ ''        // Low-speed zones (better for walking)\<newline>''
     @ ''        way["maxspeed"~"^(20|30|40)$"](around:1000,{lat},{lng});\<newline>''
     @ ''        way["zone:traffic"="20"](around:1000,{lat},{lng});\<newline>''
     @ ''        way["zone:traffic"="30"](around:1000,{lat},{lng});\<newline>''
     @ ''        \<newline>''
     @ ''        // Pedestrian-friendly street design\<newline>''
     @ ''        way["highway"="residential"]["lanes"="1"](around:1000,{lat},{lng});\<newline>''
     @ ''        way["highway"="residential"]["lanes"="2"](around:1000,{lat},{lng});\<newline>''
     @ ''        way["highway"="service"]["lanes"="1"](around:1000,{lat},{lng});\<newline>''
     @ ''        \<newline>''
     @ ''        // Green infrastructure for walking\<newline>''
     @ ''        way["natural"="tree_row"](around:1000,{lat},{lng});\<newline>''
     @ ''        way["natural"="hedge"](around:1000,{lat},{lng});\<newline>''
     @ ''        way["landuse"="grass"](around:1000,{lat},{lng});\<newline>''
     @ ''        way["landuse"="meadow"](around:1000,{lat},{lng});\<newline>''
     @ ''      );\<newline>''
     @ ''      out center;\<newline>''
     @ ''    ''\<close>

definition query_recreation :: string where
  \<open>query_recreation =
     ''\<newline>''
     @ ''      [out:json];\<newline>''
     @ ''      (\<newline>''
     @ ''        node["leisure"~"^(park|playground|sports_centre|fitness_centre|swimming_pool|garden)$"](around:1000,{lat},{lng});\<newline>''
     @ ''        way["leisure"~"^(park|playground|sports_centre|fitness_centre|swimming_pool|garden)$"](around:1000,{lat},{lng});\<newline>''
     @ ''        node["amenity"~"^(cinema|theatre)$"](around:1000,{lat},{lng});\<newline>''
     @ ''        way["amenity"~"^(cinema|theatre)$"](around:1000,{lat},{lng});\<newline>''
     @ ''        node["name"~"^(taman|park|playground|kolam renang|swimming|gym|fitness|bioskop|cinema|teater|theatre)"](around:1000,{lat},{lng});\<newline>''
     @ ''        way["name"~"^(taman|park|playground|kolam renang|swimming|gym|fitness|bioskop|cinema|teater|theatre)"](around:1000,{lat},{lng});\<newline>''
     @ ''      );\<newline>''
     @ ''      out center;\<newline>''
     @ ''    ''\<close>

definition query_safety :: string where
  \<open>query_safety =
     ''\<newline>''
     @ ''      [out:json];\<newline>''
     @ ''      (\<newline>''
     @ ''        // Street lighting\<newline>''
     @ ''        node["highway"="street_lamp"](around:1000,{lat},{lng});\<newline>''
     @ ''        way["highway"]["lit"="yes"](around:1000,{lat},{lng});\<newline>''
     @ ''        \<newline>''
     @ ''        // Crossings and traffic signals\<newline>''
     @ ''        node["highway"="crossing"](around:1000,{lat},{lng});\<newline>''
     @ ''        node["highway"="crossing"]["crossing_ref"="zebra"](around:1000,{lat},{lng});\<newline>''
     @ ''        node["highway"="crossing"]["crossing"="uncontrolled"](around:1000,{lat},{lng});\<newline>''
     @ ''        node["highway"="traffic_signals"](around:1000,{lat},{lng});\<newline>''
     @ ''        \<newline>''
     @ ''        // Traffic calming measures\<newline>''
     @ ''        way["traffic_calming"](around:1000,{lat},{lng});\<newline>''
     @ ''        way["traffic_calming"="speed_bump"](around:1000,{lat},{lng});\<newline>''
     @ ''        way["traffic_calming"="table"](around:1000,{lat},{lng});\<newline>''
     @ ''        way["traffic_calming"="chicane"](around:1000,{lat},{lng});\<newline>''
     @ ''        \<newline>''
     @ ''        // Speed limits (high speed = higher risk)\<newline>''
     @ ''        way["maxspeed"](around:1000,{lat},{lng});\<newline>''
     @ ''        \<newline>''
     @ ''        // Pedestrian infrastructure\<newline>''
     @ ''        way["sidewalk"](around:1000,{lat},{lng});\<newline>''
     @ ''        way["sidewalk"="both"](around:1000,{lat},{lng});\<newline>''
     @ ''        way["sidewalk"="left"](around:1000,{lat},{lng});\<newline>''
     @ ''        way["sidewalk"="right"](around:1000,{lat},{lng});\<newline>''
     @ ''        way["footway"="sidewalk"](around:1000,{lat},{lng});\<newline>''
     @ ''        way["kerb"="lowered"](around:1000,{lat},{lng});\<newline>''
     @ ''        \<newline>''
     @ ''        // Emergency response facilities (excluding police - they have their own category)\<newline>''
     @ ''        node["amenity"="fire_station"](around:1000,{lat},{lng});\<newline>''
     @ ''        way["amenity"="fire_station"](around:1000,{lat},{lng});\<newline>''
     @ ''        node["amenity"="hospital"](around:1000,{lat},{lng});\<newline>''
     @ ''        way["amenity"="hospital"](around:1000,{lat},{lng});\<newline>''
     @ ''        \<newline>''
     @ ''        // Surveillance/CCTV\<newline>''
     @ ''        node["man_made"="surveillance"](around:1000,{lat},{lng});\<newline>''
     @ ''        way["man_made"="surveillance"](around:1000,{lat},{lng});\<newline>''
     @ ''        node["surveillance:type"="camera"](around:1000,{lat},{lng});\<newline>''
     @ ''        way["surveillance:type"="camera"](around:1000,{lat},{lng});\<newline>''
     @ ''        \<newline>''
     @ ''        // Accessibility features (merged from access category)\<newline>''
     @ ''        node["barrier"="kerb"](around:1000,{lat},{lng});\<newline>''
     @ ''        way["barrier"="kerb"](around:1000,{lat},{lng});\<newline>''
     @ ''        node["kerb"="lowered"](around:1000,{lat},{lng});\<newline>''
     @ ''        way["kerb"="lowered"](around:1000,{lat},{lng});\<newline>''
     @ ''        node["kerb"="flush"](around:1000,{lat},{lng});\<newline>''
     @ ''        way["kerb"="flush"](around:1000,{lat},{lng});\<newline>''
     @ ''        \<newline>''
     @ ''        // Ramps and accessible entrances\<newline>''
     @ ''        node["highway"="steps"]["incline"](around:1000,{lat},{lng});\<newline>''
     @ ''        way["highway"="steps"]["incline"](around:1000,{lat},{lng});\<newline>''
     @ ''        node["highway"="elevator"](around:1000,{lat},{lng});\<newline>''
     @ ''        way["highway"="elevator"](around:1000,{lat},{lng});\<newline>''
     @ ''        \<newline>''
     @ ''        // Accessible parking\<newline>''
     @ ''        node["amenity"="parking"]["access"="designated"](around:1000,{lat},{lng});\<newline>''
     @ ''        way["amenity"="parking"]["access"="designated"](around:1000,{lat},{lng});\<newline>''
     @ ''        \<newline>''
     @ ''        // Tactile paving and guidance\<newline>''
     @ ''        node["tactile_paving"="yes"](around:1000,{lat},{lng});\<newline>''
     @ ''        way["tactile_paving"="yes"](around:1000,{lat},{lng});\<newline>''
     @ ''        \<newline>''
     @ ''        // Accessible toilets\<newline>''
     @ ''        node["amenity"="toilets"]["wheelchair"="yes"](around:1000,{lat},{lng});\<newline>''
     @ ''        way["amenity"="toilets"]["wheelchair"="yes"](around:1000,{lat},{lng});\<newline>''
     @ ''      );\<newline>''
     @ ''      out center;\<newline>''
     @ ''    ''\<close>

definition query_police :: string where
  \<open>query_police =
     ''\<newline>''
     @ ''      [out:json];\<newline>''
     @ ''      (\<newline>''
     @ ''        // Police stations and related facilities\<newline>''
     @ ''        node["amenity"="police"](around:1000,{lat},{lng});\<newline>''
     @ ''        way["amenity"="police"](around:1000,{lat},{lng});\<newline>''
     @ ''        node["name"~"^(polisi|polres|polsek|polda|satlantas|satpol|pp|police)"](around:1000,{lat},{lng});\<newline>''
     @ ''        way["name"~"^(polisi|polres|polsek|polda|satlantas|satpol|pp|police)"](around:1000,{lat},{lng});\<newline>''
     @ ''      );\<newline>''
     @ ''      out center;\<newline>''
     @ ''    ''\<close>

definition query_religious :: string where
  \<open>query_religious =
     ''\<newline>''
     @ ''      [out:json];\<newline>''
     @ ''      (\<newline>''
     @ ''        node["amenity"~"^(place_of_worship|mosque|church|temple|synagogue|hindu_temple|buddhist_temple)$"](around:1000,{lat},{lng});\<newline>''
     @ ''        way["amenity"~"^(place_of_worship|mosque|church|temple|synagogue|hindu_temple|buddhist_temple)$"](around:1000,{lat},{lng});\<newline>''
     @ ''        node["name"~"^(masjid|gudang|gereja|katedral|katedral|synagogue|hindu_temple|buddhist_temple)"](around:1000,{lat},{lng});\<newline>''
     @ ''        way["name"~"^(masjid|gudang|gereja|katedral|katedral|synagogue|hindu_temple|buddhist_temple)"](around:1000,{lat},{lng});\<newline>''
     @ ''      );\<newline>''
     @ ''      out center;\<newline>''
     @ ''    ''\<close>

text \<open>
  The object \<^verbatim>\<open>queries\<close>: it has no entry for accessibility, whose features are
  part of the safety template.
\<close>

fun queries :: "category \<Rightarrow> string option" where
  "queries Health = Some query_health"
| "queries Education = Some query_education"
| "queries Market = Some query_market"
| "queries Transport = Some query_transport"
| "queries Walkability = Some query_walkability"
| "queries Recreation = Some query_recreation"
| "queries Safety = Some query_safety"
| "queries Accessibility = None"
| "queries Police = Some query_police"
| "queries Religious = Some query_religious"

text \<open>
  \<^verbatim>\<open>queries[category] || queries.health\<close>. The function is private to the module
  and only called with the keys of \<^verbatim>\<open>FACILITY_DISTANCES\<close>, so its argument is
  taken from the category enum.
\<close>

definition generateOverpassQuery :: "category \<Rightarrow> string" where
  "generateOverpassQuery category =
     (case queries category of Some q \<Rightarrow> q | None \<Rightarrow> query_health)"

text \<open>\<^verbatim>\<open>s.replace(/pat/g, rep)\<close> for a literal, non-empty pattern.\<close>

fun replaceAll :: "string \<Rightarrow> string \<Rightarrow> string \<Rightarrow> string" where
  "replaceAll pat rep [] = []"
| "replaceAll pat rep (x # xs) =
     (if pat \<noteq> [] \<and> startsWith (x # xs) pat
      then rep @ replaceAll pat rep (drop (length pat - 1) xs)
      else x # replaceAll pat rep xs)"

definition pad_left :: "nat \<Rightarrow> string \<Rightarrow> string" where
  "pad_left n s = replicate (n - length s) CHR ''0'' @ s"

text \<open>
  \<^verbatim>\<open>x.toFixed(3)\<close>: the sign, then the magnitude rounded to three decimals, a tie
  going up.
\<close>

definition toFixed3 :: "real \<Rightarrow> string" where
  "toFixed3 x =
     (let n = nat \<lfloor>\<bar>x\<bar> * 1000 + 1 / 2\<rfloor>
      in (if x < 0 then ''-'' else []) @ show_nat (n div 1000) @ ''.''
         @ pad_left 3 (show_nat (n mod 1000)))"

text \<open>
  \<^verbatim>\<open>x.toString()\<close> in positional notation: the decimal expansion of \<open>x\<close> without
  trailing zeros. This is what JavaScript prints for a number written with at most 17
  significant digits and of magnitude between \<open>10\<^sup>-\<^sup>6\<close> and \<open>10\<^sup>2\<^sup>1\<close> (or 0); a longer
  expansion is cut to 17 fractional digits here, and exponent notation is not modelled.
\<close>

function frac_len :: "real \<Rightarrow> nat \<Rightarrow> nat" where
  "frac_len a k =
     (if 17 \<le> k \<or> a * 10 ^ k = of_int \<lfloor>a * 10 ^ k\<rfloor> then k else frac_len a (Suc k))"
  by pat_completeness auto
termination
  by (relation "measure (\<lambda>(a, k). 17 - k)") auto

declare frac_len.simps [simp del]

definition number_toString :: "real \<Rightarrow> string" where
  "number_toString x =
     (let k = frac_len \<bar>x\<bar> 0;
          n = nat \<lfloor>\<bar>x\<bar> * 10 ^ k + 1 / 2\<rfloor>
      in (if x < 0 then ''-'' else []) @ show_nat (n div 10 ^ k)
         @ (if k = 0 then [] else ''.'' @ pad_left k (show_nat (n mod 10 ^ k))))"

text \<open>
  \<^verbatim>\<open>query.replace(/{lat}/g, lat.toString()).replace(/{lng}/g, lng.toString())\<close>
\<close>

definition formatQuery :: "string \<Rightarrow> real \<Rightarrow> real \<Rightarrow> string" where
  "formatQuery query lat lng =
     replaceAll ''{lng}'' (number_toString lng)
       (replaceAll ''{lat}'' (number_toString lat) query)"

section \<open>Cache\<close>

text \<open>
  \<^verbatim>\<open>cacheUtils.hash\<close>: \<^verbatim>\<open>hash = (hash << 5) - hash + char; hash = hash & hash\<close>
  over the characters, in 32-bit two's complement, printed as a signed decimal.
\<close>

definition hash_step :: "32 word \<Rightarrow> char \<Rightarrow> 32 word" where
  "hash_step h c = push_bit 5 h - h + of_nat (of_char c)"

definition hash :: "string \<Rightarrow> string" where
  "hash str = show_int (sint (foldl hash_step 0 str))"

text \<open>Comparison of strings by character codes, as \<^verbatim>\<open>Array.prototype.sort\<close> does.\<close>

fun str_less :: "string \<Rightarrow> string \<Rightarrow> bool" where
  "str_less [] [] = False"
| "str_less [] (y # ys) = True"
| "str_less (x # xs) [] = False"
| "str_less (x # xs) (y # ys) =
     ((of_char x :: nat) < of_char y \<or> (x = y \<and> str_less xs ys))"

fun insert_param :: "string \<times> string \<Rightarrow> (string \<times> string) list \<Rightarrow> (string \<times> string) list" where
  "insert_param p [] = [p]"
| "insert_param p (q # qs) = (if str_less (fst p) (fst q) then p # q # qs else q # insert_param p qs)"

definition sort_params :: "(string \<times> string) list \<Rightarrow> (string \<times> string) list" where
  "sort_params params = foldr insert_param params []"

fun join :: "string \<Rightarrow> string list \<Rightarrow> string" where
  "join sep [] = []"
| "join sep [s] = s"
| "join sep (s # t # ss) = s @ sep @ join sep (t # ss)"

text \<open>\<^verbatim>\<open>generateKey\<close>: the parameters sorted by key, written \<^verbatim>\<open>key:value\<close>, joined by a bar.\<close>

definition generateKey :: "string \<Rightarrow> (string \<times> string) list \<Rightarrow> string" where
  "generateKey prefix params =
     prefix @ '':'' @ join ''|'' (map (\<lambda>(k, v). k @ '':'' @ v) (sort_params params))"

text \<open>
  The key that \<^verbatim>\<open>cacheLocationData\<close> and \<^verbatim>\<open>getCachedLocationData\<close> build from the
  coordinates and the data type.
\<close>

definition location_key :: "real \<Rightarrow> real \<Rightarrow> string \<Rightarrow> string" where
  "location_key lat lng dataType =
     generateKey (''location-'' @ dataType) [(''lat'', toFixed3 lat), (''lng'', toFixed3 lng)]"

text \<open>
  The key under which \<^verbatim>\<open>queryOverpassAPI\<close> and \<^verbatim>\<open>fetchCategoryWithRetry\<close> cache the
  elements of a category query: the data type is \<^verbatim>\<open>overpass-\<close> followed by the hash of
  the formatted query.
\<close>

definition overpass_key :: "category \<Rightarrow> real \<Rightarrow> real \<Rightarrow> string" where
  "overpass_key category lat lng =
     location_key lat lng
       (''overpass-'' @ hash (formatQuery (generateOverpassQuery category) lat lng))"

text \<open>
  The cache maps storage keys to the cached elements. Expiry of an entry and failing
  writes to the local storage are not modelled: an entry that is absent or expired is
  \<open>None\<close>, and no entry expires during a run.
\<close>

type_synonym cache = "string \<rightharpoonup> element list"

definition getStorageKey :: "string \<Rightarrow> string" where
  "getStorageKey key = ''f_cache_'' @ key"

definition cache_get :: "cache \<Rightarrow> string \<Rightarrow> element list option" where
  "cache_get c key = c (getStorageKey key)"

definition cache_set :: "cache \<Rightarrow> string \<Rightarrow> element list \<Rightarrow> cache" where
  "cache_set c key data = c(getStorageKey key \<mapsto> data)"

section \<open>Fetch orchestrator\<close>

text \<open>
  What one call of \<^verbatim>\<open>fetch\<close> does: it is rejected with an error message, or it
  answers with an HTTP status and, once parsed, \<^verbatim>\<open>data.elements || []\<close>.
\<close>

datatype response = Rejected string | Http nat "element list"

text \<open>
  The state that a run reads and writes: the cache, the delays it has waited for
  (in milliseconds, in order) and the number of network requests it has made.
\<close>

record state =
  s_cache :: cache
  s_waited :: "nat list"
  s_requests :: nat

definition delay :: "nat \<Rightarrow> state \<Rightarrow> state" where
  "delay ms s = s\<lparr>s_waited := s_waited s @ [ms]\<rparr>"

text \<open>
  \<^verbatim>\<open>queryOverpassAPI\<close> through \<^verbatim>\<open>cacheLocationData\<close> and \<^verbatim>\<open>cacheAPI\<close>: a cached value
  is returned; otherwise the request is made, an error thrown for a rejected request
  or a status outside 200..299, and a good answer cached. \<open>outcome\<close> is what the
  network does with this request. \<open>Inl\<close> carries the message of the thrown error.
\<close>

definition queryOverpassAPI ::
    "response \<Rightarrow> string \<Rightarrow> real \<Rightarrow> real \<Rightarrow> state \<Rightarrow> (string + element list) \<times> state" where
  "queryOverpassAPI outcome query lat lng s =
     (let formattedQuery = formatQuery query lat lng;
          key = location_key lat lng (''overpass-'' @ hash formattedQuery)
      in case cache_get (s_cache s) key of
           Some cached \<Rightarrow> (Inr cached, s)
         | None \<Rightarrow>
             let s' = s\<lparr>s_requests := s_requests s + 1\<rparr> in
             (case outcome of
                Rejected message \<Rightarrow> (Inl message, s')
              | Http status elements \<Rightarrow>
                  if 200 \<le> status \<and> status \<le> 299
                  then (Inr elements, s'\<lparr>s_cache := cache_set (s_cache s') key elements\<rparr>)
                  else (Inl (''HTTP error! status: '' @ show_nat status), s')))"

record fetch_result =
  r_category :: string
  r_facilities :: "facility list"
  r_status :: string
  r_fromCache :: "bool option"

text \<open>
  The \<^verbatim>\<open>for\<close> loop of \<^verbatim>\<open>fetchCategoryWithRetry\<close> from attempt \<open>i\<close> on. \<open>net category i\<close>
  is the outcome of the request of attempt \<open>i\<close> for the category.
\<close>

function attempts ::
    "(category \<Rightarrow> nat \<Rightarrow> response) \<Rightarrow> category \<Rightarrow> real \<Rightarrow> real \<Rightarrow> nat \<Rightarrow> nat \<Rightarrow> state
      \<Rightarrow> (string + fetch_result) \<times> state" where
  "attempts net category lat lng retries i s =
     (if i \<le> retries then
        let query = generateOverpassQuery category in
        (case queryOverpassAPI (net category i) query lat lng s of
           (Inr elements, s') \<Rightarrow>
             let facilities = processFacilities elements (category_name category) lat lng
             in (Inr \<lparr>r_category = category_name category, r_facilities = facilities,
                      r_status = ''fulfilled'', r_fromCache = Some False\<rparr>, s')
         | (Inl errorMessage, s') \<Rightarrow>
             let isRateLimit = includes_str errorMessage ''429'' in
             if i = retries then (Inl errorMessage, s')
             else
               let waitTime = (if isRateLimit then 5000 else 2000 * (i + 1))
               in attempts net category lat lng retries (i + 1) (delay waitTime s'))
      else (Inr \<lparr>r_category = category_name category, r_facilities = [],
                 r_status = ''rejected'', r_fromCache = None\<rparr>, s))"
  by pat_completeness auto
termination
  by (relation "measure (\<lambda>(net, category, lat, lng, retries, i, s). Suc retries - i)") auto

declare attempts.simps [simp del]

text \<open>\<^verbatim>\<open>fetchCategoryWithRetry\<close>: the cache is consulted first, then the attempts run.\<close>

definition fetchCategoryWithRetry ::
    "(category \<Rightarrow> nat \<Rightarrow> response) \<Rightarrow> category \<Rightarrow> real \<Rightarrow> real \<Rightarrow> nat \<Rightarrow> state
      \<Rightarrow> (string + fetch_result) \<times> state" where
  "fetchCategoryWithRetry net category lat lng retries s =
     (let tempQuery = generateOverpassQuery category;
          formattedQuery = formatQuery tempQuery lat lng
      in case cache_get (s_cache s) (location_key lat lng (''overpass-'' @ hash formattedQuery)) of
           Some cachedElements \<Rightarrow>
             (Inr \<lparr>r_category = category_name category,
                   r_facilities = processFacilities cachedElements (category_name category) lat lng,
                   r_status = ''fulfilled'', r_fromCache = Some True\<rparr>, s)
         | None \<Rightarrow> attempts net category lat lng retries 0 s)"

text \<open>
  One round of the sequential loop over the categories: a result is pushed, followed
  by a delay unless it came from the cache; a thrown error is caught and an empty
  result pushed in its place.
\<close>

definition fetch_step ::
    "(category \<Rightarrow> nat \<Rightarrow> response) \<Rightarrow> real \<Rightarrow> real \<Rightarrow> fetch_result list \<times> state \<Rightarrow> category
      \<Rightarrow> fetch_result list \<times> state" where
  "fetch_step net lat lng acc category =
     (case acc of (results, s) \<Rightarrow>
        (case fetchCategoryWithRetry net category lat lng 3 s of
           (Inr result, s') \<Rightarrow>
             (results @ [result],
              if r_fromCache result = Some True then s' else delay 2000 s')
         | (Inl error, s') \<Rightarrow>
             (results @ [\<lparr>r_category = category_name category, r_facilities = [],
                           r_status = ''fulfilled'', r_fromCache = None\<rparr>], s')))"

definition fetch_all ::
    "(category \<Rightarrow> nat \<Rightarrow> response) \<Rightarrow> real \<Rightarrow> real \<Rightarrow> state \<Rightarrow> fetch_result list \<times> state" where
  "fetch_all net lat lng s = foldl (fetch_step net lat lng) ([], s) categories"

section \<open>The livability score\<close>

record coordinates =
  co_lng :: real
  co_lat :: real

record location =
  l_address :: string
  l_coordinates :: coordinates

record LiveabilityData =
  d_overall :: number
  d_subscores :: subscores
  d_location :: "location option"
  d_facilityCounts :: counts

text \<open>
  The callback of \<^verbatim>\<open>results.forEach\<close>: the facilities of a fulfilled result are
  appended to \<^verbatim>\<open>allFacilities\<close> and counted.
\<close>

definition process_result ::
    "facility list \<times> counts \<times> scores \<Rightarrow> fetch_result \<Rightarrow> facility list \<times> counts \<times> scores" where
  "process_result acc result =
     (case acc of (allFacilities, tallies) \<Rightarrow>
        if r_status result = ''fulfilled''
        then (allFacilities @ r_facilities result,
              foldl count_facility tallies (r_facilities result))
        else (allFacilities, tallies))"

text \<open>
  The part of \<^verbatim>\<open>calculateLivabilityScore\<close> after the fetch loop: the results are
  processed, the custom points merged, and the scores computed. \<open>allPOIs\<close> is the
  content of the custom point store.
\<close>

definition score_results ::
    "fetch_result list \<Rightarrow> poi list \<Rightarrow> real \<Rightarrow> real \<Rightarrow> string
      \<Rightarrow> LiveabilityData \<times> facility list" where
  "score_results results allPOIs lat lng addr =
     (case foldl process_result ([], (\<lambda>c. 0, \<lambda>c. Num 0)) results of
        (apiFacilities, tallies) \<Rightarrow>
          let customPOIs = getPOIsNearLocation allPOIs lat lng 1000;
              customFacilities = map (custom_facility lat lng) customPOIs;
              allFacilities = apiFacilities @ customFacilities
          in (case foldl count_custom tallies customFacilities of
                (counts, categoryScores) \<Rightarrow>
                  let sub = calculateSubScores categoryScores
                  in (\<lparr>d_overall = overall_score sub,
                       d_subscores = sub,
                       d_location = Some \<lparr>l_address = addr,
                                           l_coordinates = \<lparr>co_lng = lng, co_lat = lat\<rparr>\<rparr>,
                       d_facilityCounts = counts\<rparr>,
                      allFacilities)))"

definition calculateLivabilityScore ::
    "(category \<Rightarrow> nat \<Rightarrow> response) \<Rightarrow> poi list \<Rightarrow> real \<Rightarrow> real \<Rightarrow> string \<Rightarrow> state
      \<Rightarrow> (LiveabilityData \<times> facility list) \<times> state" where
  "calculateLivabilityScore net allPOIs lat lng addr s =
     (case fetch_all net lat lng s of
        (results, s') \<Rightarrow> (score_results results allPOIs lat lng addr, s'))"

section \<open>Notions used in the statements\<close>

text \<open>A request fails when it is rejected or answered with a status outside 200..299.\<close>

definition failing :: "response \<Rightarrow> bool" where
  "failing r = (case r of Rejected message \<Rightarrow> True | Http status elements \<Rightarrow> status < 200 \<or> 299 < status)"

text \<open>The message of the error that a failing request throws.\<close>

definition error_message :: "response \<Rightarrow> string" where
  "error_message r =
     (case r of
        Rejected message \<Rightarrow> message
      | Http status elements \<Rightarrow> ''HTTP error! status: '' @ show_nat status)"

text \<open>The delay before the next attempt, after attempt \<open>i\<close> has failed with response \<open>r\<close>.\<close>

definition backoff :: "response \<Rightarrow> nat \<Rightarrow> nat" where
  "backoff r i = (if includes_str (error_message r) ''429'' then 5000 else 2000 * (i + 1))"

text \<open>The result that the loop pushes for a category whose fetch has thrown.\<close>

definition empty_result :: "category \<Rightarrow> fetch_result" where
  "empty_result c =
     \<lparr>r_category = category_name c, r_facilities = [], r_status = ''fulfilled'',
      r_fromCache = None\<rparr>"

text \<open>The number of facilities of a list that carry a given category.\<close>

definition count_of :: "category \<Rightarrow> facility list \<Rightarrow> nat" where
  "count_of c fs = length (filter (\<lambda>f. f_category f = category_name c) fs)"

text \<open>One step of the hash on integers, reduced modulo \<open>2\<^sup>3\<^sup>2\<close>.\<close>

definition hash_int_step :: "int \<Rightarrow> char \<Rightarrow> int" where
  "hash_int_step h c = (h * 31 + int (of_char c)) mod 4294967296"

section \<open>Concrete inputs\<close>

text \<open>A school that carries a police name: both the education and the police rule match.\<close>

definition school_police :: element where
  "school_police =
     \<lparr>e_id = Some 7, e_lat = Some 1, e_lon = Some 1, e_center = None,
      e_tags = Some [''amenity'' \<mapsto> ''school'', ''name'' \<mapsto> ''Sekolah Polisi Negara'']\<rparr>"

text \<open>A street lamp classified as walkability, with contribution 8.\<close>

definition street_lamp :: facility where
  "street_lamp =
     \<lparr>f_id = ''walkability-1'', f_name = ''street_lamp'', f_category = ''walkability'',
      f_lng = 0, f_lat = 0, f_distance = 100, f_contribution = Num 8,
      f_tags = Some [''highway'' \<mapsto> ''street_lamp'']\<rparr>"

text \<open>
  A hospital about 1000.2 m north of the origin (-6.2, 106.8), on the same meridian.
\<close>

definition far_hospital :: element where
  "far_hospital =
     \<lparr>e_id = Some 42, e_lat = Some (-6.191005), e_lon = Some 106.8, e_center = None,
      e_tags = Some [''amenity'' \<mapsto> ''hospital'']\<rparr>"

text \<open>
  Three elements of one health query, all at the origin (-6.2, 106.8): a pharmacy that
  is also a shop, a doctor's practice and a clinic whose name is part of both other
  names; and the facilities that \<open>to_facility\<close> makes of them.
\<close>

definition apotek :: element where
  "apotek = \<lparr>e_id = Some 1, e_lat = Some (-6.2), e_lon = Some 106.8, e_center = None,
      e_tags = Some [''amenity'' \<mapsto> ''pharmacy'', ''shop'' \<mapsto> ''chemist'',
                     ''name'' \<mapsto> ''Apotek Sehat'']\<rparr>"

definition klinik :: element where
  "klinik = \<lparr>e_id = Some 2, e_lat = Some (-6.2), e_lon = Some 106.8, e_center = None,
      e_tags = Some [''amenity'' \<mapsto> ''doctors'', ''name'' \<mapsto> ''Klinik Sehat'']\<rparr>"

definition sehat :: element where
  "sehat = \<lparr>e_id = Some 3, e_lat = Some (-6.2), e_lon = Some 106.8, e_center = None,
      e_tags = Some [''amenity'' \<mapsto> ''clinic'', ''name'' \<mapsto> ''Sehat'']\<rparr>"

definition klinik_facility :: facility where
  "klinik_facility = \<lparr>f_id = ''health-2'', f_name = ''Klinik Sehat'', f_category = ''health'',
       f_lng = 106.8, f_lat = -6.2, f_distance = 0, f_contribution = Num 10,
       f_tags = Some [''amenity'' \<mapsto> ''doctors'', ''name'' \<mapsto> ''Klinik Sehat'']\<rparr>"

definition sehat_facility :: facility where
  "sehat_facility = \<lparr>f_id = ''health-3'', f_name = ''Sehat'', f_category = ''health'',
       f_lng = 106.8, f_lat = -6.2, f_distance = 0, f_contribution = Num 10,
       f_tags = Some [''amenity'' \<mapsto> ''clinic'', ''name'' \<mapsto> ''Sehat'']\<rparr>"

definition apotek_facility :: facility where
  "apotek_facility = \<lparr>f_id = ''market-1'', f_name = ''Apotek Sehat'', f_category = ''market'',
       f_lng = 106.8, f_lat = -6.2, f_distance = 0, f_contribution = Num 8,
       f_tags = Some [''amenity'' \<mapsto> ''pharmacy'', ''shop'' \<mapsto> ''chemist'',
                     ''name'' \<mapsto> ''Apotek Sehat'']\<rparr>"

text \<open>
  Custom points at the origin (-6.2, 106.8): one with the category walkability, and one
  whose category is the name of a property that every object inherits.
\<close>

definition walk_poi :: poi where
  "walk_poi =
     \<lparr>p_id = ''custom-1'', p_name = ''Trotoar'', p_category = ''walkability'',
      p_lng = 106.8, p_lat = -6.2\<rparr>"

definition odd_poi :: poi where
  "odd_poi =
     \<lparr>p_id = ''custom-2'', p_name = ''Pos'', p_category = ''toString'',
      p_lng = 106.8, p_lat = -6.2\<rparr>"

text \<open>
  A campus mosque at the origin, as the religious query returns it, and the facility
  made of it; a network that rejects every request but those of the religious
  category; and a state with an empty cache.
\<close>

definition masjid_kampus :: element where
  "masjid_kampus =
     \<lparr>e_id = Some 9, e_lat = Some (-6.2), e_lon = Some 106.8, e_center = None,
      e_tags = Some [''amenity'' \<mapsto> ''place_of_worship'', ''name'' \<mapsto> ''Masjid Kampus'']\<rparr>"

definition masjid_facility :: facility where
  "masjid_facility =
     \<lparr>f_id = ''education-9'', f_name = ''Masjid Kampus'', f_category = ''education'',
      f_lng = 106.8, f_lat = -6.2, f_distance = 0, f_contribution = Num 10,
      f_tags = Some [''amenity'' \<mapsto> ''place_of_worship'', ''name'' \<mapsto> ''Masjid Kampus'']\<rparr>"

definition only_religious :: "category \<Rightarrow> nat \<Rightarrow> response" where
  "only_religious c i =
     (if c = Religious then Http 200 [masjid_kampus] else Rejected ''Failed to fetch'')"

definition start :: state where
  "start = \<lparr>s_cache = Map.empty, s_waited = [], s_requests = 0\<rparr>"

text \<open>The state after the four failed attempts of the first category, health.\<close>

definition after_health :: state where
  "after_health = \<lparr>s_cache = Map.empty, s_waited = [2000, 4000, 6000], s_requests = 4\<rparr>"

text \<open>
  Category sums that are doubles and at which the weighted sums are not whole numbers.
\<close>

definition sample_sums :: "category \<Rightarrow> real" where
  "sample_sums = (\<lambda>c. 0)(Health := 7.75, Market := 0.25, Recreation := 1, Transport := 0.5)"

section \<open>Properties of the distance contribution\<close>

lemma category_of_name [simp]: "category_of (category_name c) = Some c"
  by (cases c) (simp_all add: category_of_def)

lemma decayConfig_maxDistance [simp]: "maxDistance (decayConfig c) = 1000"
  by (cases c) simp_all

lemma decayConfig_maxContribution_pos: "0 < maxContribution (decayConfig c)"
  by (cases c) simp_all

lemma decayConfig_decayRate_pos: "0 < decayRate (decayConfig c)"
  by (cases c) simp_all

lemma contribution_own [simp]:
  "calculateDistanceContribution d (category_name c) = Num (decayed (decayConfig c) d)"
  by (simp add: calculateDistanceContribution_def get_property_def)

lemma decayed_beyond: "1000 < d \<Longrightarrow> decayed (decayConfig c) d = 0"
  by (simp add: decayed_def)

lemma decayed_within:
  "d \<le> 1000 \<Longrightarrow>
   decayed (decayConfig c) d =
     max (maxContribution (decayConfig c) * (1 - d / 1000) powr decayRate (decayConfig c))
         (0.1 * maxContribution (decayConfig c))"
  by (simp add: decayed_def Let_def mult.commute)

lemma decayed_floor:
  "d \<le> 1000 \<Longrightarrow> 0.1 * maxContribution (decayConfig c) \<le> decayed (decayConfig c) d"
  by (simp add: decayed_within)

lemma decayed_antimono:
  assumes "0 \<le> d1" "d1 \<le> d2" "d2 \<le> 1000"
  shows "decayed (decayConfig c) d2 \<le> decayed (decayConfig c) d1"
proof -
  let ?m = "maxContribution (decayConfig c)" and ?r = "decayRate (decayConfig c)"
  have base: "0 \<le> 1 - d2 / 1000" "1 - d2 / 1000 \<le> 1 - d1 / 1000"
    using assms by simp_all
  have "(1 - d2 / 1000) powr ?r \<le> (1 - d1 / 1000) powr ?r"
    using decayConfig_decayRate_pos [of c] base by (intro powr_mono2) simp_all
  then have "?m * (1 - d2 / 1000) powr ?r \<le> ?m * (1 - d1 / 1000) powr ?r"
    using decayConfig_maxContribution_pos [of c] by simp
  then show ?thesis
    using assms by (simp add: decayed_within max.coboundedI1)
qed

text \<open>
  Claim C1. For each of the ten categories, whose config has \<open>maxDistance = 1000\<close>:
  beyond the maximum distance the contribution is 0; for \<open>0 \<le> d \<le> 1000\<close> it is
  \<open>max (maxContribution * (1 - d / maxDistance) powr decayRate) (0.1 * maxContribution)\<close>,
  which is at least the floor \<open>0.1 * maxContribution\<close>; and on that range a larger
  distance never gives a larger contribution.
\<close>

theorem C1_distance_contribution:
  fixes c :: category and d :: real
  defines "config \<equiv> decayConfig c"
  shows "maxDistance config = 1000
    \<and> (d > maxDistance config \<longrightarrow> calculateDistanceContribution d (category_name c) = Num 0)
    \<and> (0 \<le> d \<and> d \<le> maxDistance config \<longrightarrow>
         (\<exists>v. calculateDistanceContribution d (category_name c) = Num v
            \<and> v = max (maxContribution config * (1 - d / maxDistance config) powr decayRate config)
                      (0.1 * maxContribution config)
            \<and> 0.1 * maxContribution config \<le> v
            \<and> (\<forall>d'. d \<le> d' \<and> d' \<le> maxDistance config \<longrightarrow>
                 (\<exists>v'. calculateDistanceContribution d' (category_name c) = Num v' \<and> v' \<le> v))))"
proof (intro conjI impI)
  show "maxDistance config = 1000"
    by (simp add: config_def)
  show "calculateDistanceContribution d (category_name c) = Num 0" if "d > maxDistance config"
    using that by (simp add: config_def decayed_beyond)
  show "\<exists>v. calculateDistanceContribution d (category_name c) = Num v
            \<and> v = max (maxContribution config * (1 - d / maxDistance config) powr decayRate config)
                      (0.1 * maxContribution config)
            \<and> 0.1 * maxContribution config \<le> v
            \<and> (\<forall>d'. d \<le> d' \<and> d' \<le> maxDistance config \<longrightarrow>
                 (\<exists>v'. calculateDistanceContribution d' (category_name c) = Num v' \<and> v' \<le> v))"
    if range: "0 \<le> d \<and> d \<le> maxDistance config"
  proof (intro exI conjI allI impI)
    show "calculateDistanceContribution d (category_name c) = Num (decayed config d)"
      by (simp add: config_def)
    show "decayed config d =
        max (maxContribution config * (1 - d / maxDistance config) powr decayRate config)
            (0.1 * maxContribution config)"
      using range decayed_within [of d c] by (simp add: config_def)
    show "0.1 * maxContribution config \<le> decayed config d"
      using range decayed_floor [of d c] by (simp add: config_def)
    show "calculateDistanceContribution d' (category_name c) = Num (decayed config d')" for d'
      by (simp add: config_def)
    show "decayed config d' \<le> decayed config d" if "d \<le> d' \<and> d' \<le> maxDistance config" for d'
      using range that decayed_antimono [of d d' c] by (simp add: config_def)
  qed
qed

theorem C1_distance_contribution_witness:
  "maxDistance (decayConfig Health) = 1000
   \<and> (1500::real) > 1000 \<and> calculateDistanceContribution 1500 ''health'' = Num 0
   \<and> (0::real) \<le> 1000 \<and> calculateDistanceContribution 0 ''health'' = Num 10
   \<and> calculateDistanceContribution 1000 ''health'' = Num 1"
  using C1_distance_contribution [of Health 1500] C1_distance_contribution [of Health 0]
    C1_distance_contribution [of Health 1000]
  by simp

section \<open>Properties of the classifier\<close>

lemma school_police_education: "is_education school_police"
  by code_simp

lemma school_police_police: "is_police school_police"
  by code_simp

text \<open>
  Claim C2. The rules form an ordered priority list, education first and police second:
  an element that satisfies both the education rule and the police rule is classified
  as education, whatever the query bucket, and so is the facility built from it; an
  element that satisfies the police rule but not the education rule is police.
\<close>

theorem C2_classifier_priority:
  "(is_education e \<and> is_police e \<longrightarrow>
      actualCategory e bucket = ''education''
      \<and> f_category (to_facility bucket userLat userLng e index) = ''education'')
   \<and> (\<not> is_education e \<and> is_police e \<longrightarrow>
      actualCategory e bucket = ''police''
      \<and> f_category (to_facility bucket userLat userLng e index) = ''police'')"
  by (simp add: actualCategory_def to_facility_def Let_def)

theorem C2_classifier_priority_witness:
  "is_education school_police \<and> is_police school_police
   \<and> actualCategory school_police ''police'' = ''education''
   \<and> f_category (to_facility ''police'' 1 1 school_police 0) = ''education''"
  using C2_classifier_priority [of school_police "''police''" 1 1 0]
    school_police_education school_police_police
  by simp

section \<open>Properties of the score aggregator\<close>

lemma js_round_nonneg: "0 \<le> x \<Longrightarrow> 0 \<le> js_round x"
  by (simp add: js_round_def)

subsection \<open>Rounding to the nearest double\<close>

lemma rne_of_int: "rne (of_int n) = n"
  by (simp add: rne_def)

lemma rne_mono:
  assumes xy: "x \<le> y"
  shows "rne x \<le> rne y"
proof -
  have fxy: "\<lfloor>x\<rfloor> \<le> \<lfloor>y\<rfloor>" using xy by (rule floor_mono)
  have lo: "\<lfloor>z\<rfloor> \<le> rne z" and hi: "rne z \<le> \<lfloor>z\<rfloor> + 1" for z
    by (simp_all add: rne_def Let_def)
  show ?thesis
  proof (cases "\<lfloor>x\<rfloor> = \<lfloor>y\<rfloor>")
    case True
    then show ?thesis using xy by (auto simp: rne_def Let_def)
  next
    case False
    then have lt: "\<lfloor>x\<rfloor> + 1 \<le> \<lfloor>y\<rfloor>" using fxy by simp
    show ?thesis using hi [of x] lo [of y] lt by linarith
  qed
qed

lemma rne_ge: "of_int n \<le> x \<Longrightarrow> n \<le> rne x"
  using rne_mono [of "of_int n" x] by (simp add: rne_of_int)

lemma rne_le: "x \<le> of_int n \<Longrightarrow> rne x \<le> n"
  using rne_mono [of x "of_int n"] by (simp add: rne_of_int)

lemma fl_zero [simp]: "fl 0 = 0"
  by (simp add: fl_def)

lemma fl_nonneg:
  assumes x: "0 \<le> x"
  shows "0 \<le> fl x"
proof (cases "x = 0")
  case True
  then show ?thesis by simp
next
  case False
  define u :: real where "u = 2 powr (of_int \<lfloor>log 2 \<bar>x\<bar>\<rfloor> - 52)"
  have u: "0 < u" by (simp add: u_def)
  have "of_int 0 \<le> x / u" using x u by simp
  then have "0 \<le> rne (x / u)" by (rule rne_ge)
  then show ?thesis using False u by (simp add: fl_def Let_def u_def)
qed

text \<open>A positive number lies in the binade of its exponent, and so does its rounding.\<close>

lemma binade:
  assumes x: "0 < x"
  defines "e \<equiv> \<lfloor>log 2 x\<rfloor>"
  shows "2 powr (of_int e) \<le> x" and "x < 2 powr (of_int e + 1)"
proof -
  have "\<lfloor>log 2 x\<rfloor> = e" by (simp add: e_def)
  then have "2 powr (of_int e) \<le> x \<and> x < 2 powr (of_int (e + 1))"
    using x by (subst (asm) floor_log_eq_powr_iff) simp_all
  then show "2 powr (of_int e) \<le> x" and "x < 2 powr (of_int e + 1)" by simp_all
qed

lemma fl_range:
  assumes x: "0 < x"
  defines "e \<equiv> \<lfloor>log 2 x\<rfloor>"
  shows "2 powr (of_int e) \<le> fl x" and "fl x \<le> 2 powr (of_int e + 1)"
proof -
  define u :: real where "u = 2 powr (of_int e - 52)"
  have u: "0 < u" by (simp add: u_def)
  have flx: "fl x = of_int (rne (x / u)) * u"
    using x by (simp add: fl_def Let_def u_def e_def)
  have p1: "2 powr (of_int e) = 2 ^ 52 * u"
    unfolding u_def by (simp add: powr_diff)
  have p2: "2 powr (of_int e + 1) = 2 ^ 53 * u"
    unfolding u_def by (simp add: powr_diff powr_add)
  have "2 ^ 52 * u \<le> x" using binade(1) [OF x] p1 by (simp add: e_def)
  then have "of_int (2 ^ 52) \<le> x / u" using u by (simp add: pos_le_divide_eq)
  then have "2 ^ 52 \<le> rne (x / u)" by (rule rne_ge)
  then have "(of_int (2 ^ 52) :: real) \<le> of_int (rne (x / u))" by (simp only: of_int_le_iff)
  then have "(2 ^ 52 :: real) \<le> of_int (rne (x / u))" by simp
  then have "2 ^ 52 * u \<le> of_int (rne (x / u)) * u" using u by simp
  then show "2 powr (of_int e) \<le> fl x" using flx p1 by simp
  have "x < 2 ^ 53 * u" using binade(2) [OF x] p2 by (simp add: e_def)
  then have "x / u \<le> of_int (2 ^ 53)" using u by (simp add: pos_divide_le_eq)
  then have "rne (x / u) \<le> 2 ^ 53" by (rule rne_le)
  then have "(of_int (rne (x / u)) :: real) \<le> of_int (2 ^ 53)" by (simp only: of_int_le_iff)
  then have "of_int (rne (x / u)) \<le> (2 ^ 53 :: real)" by simp
  then have "of_int (rne (x / u)) * u \<le> 2 ^ 53 * u" using u by simp
  then show "fl x \<le> 2 powr (of_int e + 1)" using flx p2 by simp
qed

text \<open>Rounding to the nearest double is monotone.\<close>

lemma fl_mono_pos:
  assumes x: "0 < x" and xy: "x \<le> y"
  shows "fl x \<le> fl y"
proof -
  have y: "0 < y" using x xy by simp
  define ex where "ex = \<lfloor>log 2 x\<rfloor>"
  define ey where "ey = \<lfloor>log 2 y\<rfloor>"
  have "log 2 x \<le> log 2 y" using x xy by simp
  then have le: "ex \<le> ey" unfolding ex_def ey_def by (rule floor_mono)
  show ?thesis
  proof (cases "ex = ey")
    case True
    define u :: real where "u = 2 powr (of_int ey - 52)"
    have u: "0 < u" by (simp add: u_def)
    have fx: "fl x = of_int (rne (x / u)) * u"
      using x True by (simp add: fl_def Let_def u_def ex_def ey_def)
    have fy: "fl y = of_int (rne (y / u)) * u"
      using y by (simp add: fl_def Let_def u_def ey_def)
    have "x / u \<le> y / u" using xy u by (simp add: divide_right_mono)
    then have "rne (x / u) \<le> rne (y / u)" by (rule rne_mono)
    then show ?thesis using u fx fy by simp
  next
    case False
    then have "ex + 1 \<le> ey" using le by simp
    then have "(of_int ex + 1 :: real) \<le> of_int ey" by linarith
    then have "(2::real) powr (of_int ex + 1) \<le> 2 powr (of_int ey)" by simp
    moreover have "fl x \<le> 2 powr (of_int ex + 1)"
      using fl_range(2) [OF x] by (simp add: ex_def)
    moreover have "2 powr (of_int ey) \<le> fl y"
      using fl_range(1) [OF y] by (simp add: ey_def)
    ultimately show ?thesis by linarith
  qed
qed

lemma fl_mono: "0 \<le> x \<Longrightarrow> x \<le> y \<Longrightarrow> fl x \<le> fl y"
  using fl_mono_pos [of x y] fl_nonneg [of y] by (cases "x = 0") simp_all

text \<open>
  The rounding of a positive number whose binade is known: with \<open>x * 2\<^sup>k\<close> between
  \<open>2\<^sup>5\<^sup>2\<close> and \<open>2\<^sup>5\<^sup>3\<close>, the doubles around \<open>x\<close> are the multiples of \<open>1 / 2\<^sup>k\<close>.
\<close>

lemma fl_eval:
  assumes x: "0 < x" and lo: "2 ^ 52 \<le> x * 2 ^ k" and hi: "x * 2 ^ k < 2 ^ 53"
  shows "fl x = of_int (rne (x * 2 ^ k)) / 2 ^ k"
proof -
  define e :: int where "e = 52 - int k"
  have pk: "(2::real) powr (of_int e) = 2 ^ 52 / 2 ^ k"
    unfolding e_def by (simp add: powr_diff powr_realpow)
  have pk1: "(2::real) powr (of_int (e + 1)) = 2 ^ 53 / 2 ^ k"
    unfolding e_def by (simp add: powr_diff powr_add powr_realpow)
  have "2 powr (of_int e) \<le> x \<and> x < 2 powr (of_int (e + 1))"
    unfolding pk pk1 using lo hi by (simp add: pos_divide_le_eq pos_less_divide_eq)
  then have fe: "\<lfloor>log 2 x\<rfloor> = e"
    using x by (subst floor_log_eq_powr_iff) simp_all
  have u: "(2::real) powr (of_int e - 52) = 1 / 2 ^ k"
    unfolding e_def by (simp add: powr_minus powr_realpow divide_simps)
  show ?thesis using x fe u by (simp add: fl_def Let_def)
qed

text \<open>The literals of the weighted sums, as doubles.\<close>

lemma fl_literals:
  "fl (6 / 5) = 5404319552844595 / 4503599627370496"
  "fl (4 / 5) = 3602879701896397 / 4503599627370496"
  "fl (3 / 5) = 5404319552844595 / 9007199254740992"
  "fl (3 / 10) = 5404319552844595 / 18014398509481984"
  "fl (1 / 5) = 3602879701896397 / 18014398509481984"
  "fl 1 = 1"
  "fl 2 = 2"
  "fl (3 / 2) = 3 / 2"
  "fl (1 / 2) = 1 / 2"
  "fl (5 / 2) = 5 / 2"
  "fl (1 / 4) = 1 / 4"
  using fl_eval [of "6 / 5" 52]
    fl_eval [of "4 / 5" 53]
    fl_eval [of "3 / 5" 53]
    fl_eval [of "3 / 10" 54]
    fl_eval [of "1 / 5" 55]
    fl_eval [of "1" 52]
    fl_eval [of "2" 51]
    fl_eval [of "3 / 2" 52]
    fl_eval [of "1 / 2" 53]
    fl_eval [of "5 / 2" 51]
    fl_eval [of "1 / 4" 54]
  by (simp_all add: rne_def)

text \<open>Some whole numbers, which are doubles.\<close>

lemma fl_whole:
  "fl 3 = 3"
  "fl 6 = 6"
  "fl 10 = 10"
  "fl 20 = 20"
  "fl 25 = 25"
  "fl 30 = 30"
  "fl 55 = 55"
  "fl 80 = 80"
  "fl 100 = 100"
  using fl_eval [of "3" 51]
    fl_eval [of "6" 50]
    fl_eval [of "10" 49]
    fl_eval [of "20" 48]
    fl_eval [of "25" 48]
    fl_eval [of "30" 48]
    fl_eval [of "55" 47]
    fl_eval [of "80" 46]
    fl_eval [of "100" 46]
  by (simp_all add: rne_def)

text \<open>The products with the weights 0.3 and 0.2 at the sub-scores 100 and 10.\<close>

lemma fl_products:
  "fl (135107988821114875 / 4503599627370496) = 30"
  "fl (90071992547409925 / 4503599627370496) = 20"
  "fl (27021597764222975 / 9007199254740992) = 3"
  using fl_eval [of "135107988821114875 / 4503599627370496" 48]
    fl_eval [of "90071992547409925 / 4503599627370496" 48]
    fl_eval [of "27021597764222975 / 9007199254740992" 51]
  by (simp_all add: rne_def)

subsection \<open>Sub-scores and overall score\<close>

text \<open>
  Claim C3 states the four sub-scores as rounded and capped weighted sums. Read as
  sums of real numbers it fails: the code evaluates them in double arithmetic, and the
  rounding error of a product can bring a sum below the half that \<^verbatim>\<open>Math.round\<close>
  rounds up. With a health sum of 7.75 and a market sum of 0.25, both of them doubles,
  the exact sum \<open>7.75 * 1.2 + 0.25 * 0.8\<close> is 9.5, which rounds to 10; the product
  \<^verbatim>\<open>7.75 * 1.2\<close> is the double 9.299999999999999, the sum is the double
  9.499999999999998, and the services score is 9.
\<close>

text \<open>The products and sums that arise at the sums \<open>sample_sums\<close>.\<close>

lemma fl_sample:
  "fl (31 / 4) = 31 / 4"
  "fl (1 / 4) = 1 / 4"
  "fl (3 / 4) = 3 / 4"
  "fl (167533906138182445 / 18014398509481984) = 5235434566818201 / 562949953421312"
  "fl (5235434566818201 / 562949953421312) = 5235434566818201 / 562949953421312"
  "fl (3602879701896397 / 18014398509481984) = 3602879701896397 / 18014398509481984"
  "fl (171136785840078829 / 18014398509481984) = 5348024557502463 / 562949953421312"
  "fl (5348024557502463 / 562949953421312) = 5348024557502463 / 562949953421312"
  "fl (111689270758788307 / 18014398509481984) = 6980579422424269 / 1125899906842624"
  "fl (6980579422424269 / 1125899906842624) = 6980579422424269 / 1125899906842624"
  "fl (48638875975601355 / 18014398509481984) = 6079859496950169 / 2251799813685248"
  "fl (6079859496950169 / 2251799813685248) = 6079859496950169 / 2251799813685248"
  "fl (6642809450371481 / 2251799813685248) = 6642809450371481 / 2251799813685248"
  "fl (10020509170899353 / 2251799813685248) = 1252563646362419 / 281474976710656"
  "fl (10808639105689191 / 18014398509481984) = 1351079888211149 / 2251799813685248"
  "fl (11371589059110501 / 2251799813685248) = 2842897264777625 / 562949953421312"
  using fl_eval [of "31 / 4" 50]
    fl_eval [of "1 / 4" 54]
    fl_eval [of "3 / 4" 53]
    fl_eval [of "167533906138182445 / 18014398509481984" 49]
    fl_eval [of "5235434566818201 / 562949953421312" 49]
    fl_eval [of "3602879701896397 / 18014398509481984" 55]
    fl_eval [of "171136785840078829 / 18014398509481984" 49]
    fl_eval [of "5348024557502463 / 562949953421312" 49]
    fl_eval [of "111689270758788307 / 18014398509481984" 50]
    fl_eval [of "6980579422424269 / 1125899906842624" 50]
    fl_eval [of "48638875975601355 / 18014398509481984" 51]
    fl_eval [of "6079859496950169 / 2251799813685248" 51]
    fl_eval [of "6642809450371481 / 2251799813685248" 51]
    fl_eval [of "10020509170899353 / 2251799813685248" 50]
    fl_eval [of "10808639105689191 / 18014398509481984" 53]
    fl_eval [of "11371589059110501 / 2251799813685248" 50]
  by (simp_all add: rne_def)

theorem C3_exact_sum_differs:
  "fl 7.75 = 7.75 \<and> fl 0.25 = 0.25
   \<and> services (calculateSubScores ((\<lambda>c. Num 0)(Health := Num 7.75, Market := Num 0.25)))
       = Num 9
   \<and> min 100 (of_int \<lfloor>(7.75 * 1.2 + 0 * 1.0 + 0.25 * 0.8 + 0 * 0.8 :: real) + 1 / 2\<rfloor>)
       = (10 :: real)"
proof -
  have "fl 7.75 = 7.75" "fl 0.25 = 0.25"
    by (simp_all add: fl_sample)
  moreover have "services (calculateSubScores ((\<lambda>c. Num 0)(Health := Num 7.75, Market := Num 0.25)))
       = Num 9"
    by (simp add: calculateSubScores_def double_def js_round_def fl_literals fl_sample)
  moreover have "min 100 (of_int \<lfloor>(7.75 * 1.2 + 0 * 1.0 + 0.25 * 0.8 + 0 * 0.8 :: real) + 1 / 2\<rfloor>)
       = (10 :: real)"
    by simp
  ultimately show ?thesis by (intro conjI)
qed

text \<open>
  Claim C3, as amended. For nonnegative category sums, each sub-score is the weighted
  sum of the claim, evaluated in double arithmetic (every product and every sum, taken
  from the left, rounded to the nearest double), then rounded to the nearest integer,
  a tie going up (the floor of the sum plus one half), and capped at 100. Every
  sub-score lies in [0, 100], and so does the overall score
  \<open>services * 0.3 + mobility * 0.25 + safety * 0.25 + environment * 0.2\<close>, evaluated in
  double arithmetic as well.
\<close>

theorem C3_subscores:
  fixes v :: "category \<Rightarrow> real"
  assumes nonneg: "\<forall>c. 0 \<le> v c"
  defines "sub \<equiv> calculateSubScores (\<lambda>c. Num (v c))"
  shows "services sub = Num (min 100 (of_int
            \<lfloor>fl (fl (fl (fl (v Health * fl 1.2) + fl (v Education * fl 1.0))
                     + fl (v Market * fl 0.8)) + fl (v Religious * fl 0.8)) + 1 / 2\<rfloor>))
    \<and> mobility sub = Num (min 100 (of_int
            \<lfloor>fl (fl (v Transport * fl 1.5) + fl (v Walkability * fl 0.5)) + 1 / 2\<rfloor>))
    \<and> safety sub = Num (min 100 (of_int
            \<lfloor>fl (fl (fl (fl (v Safety * fl 0.6) + fl (v Police * fl 2.0))
                     + fl (v Health * fl 0.8)) + fl (v Accessibility * fl 1.0)) + 1 / 2\<rfloor>))
    \<and> environment sub = Num (min 100 (of_int \<lfloor>fl (v Recreation * fl 2.5) + 1 / 2\<rfloor>))
    \<and> (\<exists>a b c d t. services sub = Num a \<and> mobility sub = Num b \<and> safety sub = Num c
          \<and> environment sub = Num d \<and> overall_score sub = Num t
          \<and> t = fl (fl (fl (fl (a * fl 0.3) + fl (b * fl 0.25)) + fl (c * fl 0.25))
                    + fl (d * fl 0.2))
          \<and> 0 \<le> a \<and> a \<le> 100 \<and> 0 \<le> b \<and> b \<le> 100 \<and> 0 \<le> c \<and> c \<le> 100
          \<and> 0 \<le> d \<and> d \<le> 100 \<and> 0 \<le> t \<and> t \<le> 100)"
proof -
  define w_services where "w_services = fl (fl (fl (fl (v Health * fl 1.2)
      + fl (v Education * fl 1.0)) + fl (v Market * fl 0.8)) + fl (v Religious * fl 0.8))"
  define w_mobility where
    "w_mobility = fl (fl (v Transport * fl 1.5) + fl (v Walkability * fl 0.5))"
  define w_safety where "w_safety = fl (fl (fl (fl (v Safety * fl 0.6)
      + fl (v Police * fl 2.0)) + fl (v Health * fl 0.8)) + fl (v Accessibility * fl 1.0))"
  define w_environment where "w_environment = fl (v Recreation * fl 2.5)"
  have n: "0 \<le> v c" for c using nonneg by simp
  have prod: "0 \<le> fl (v c * fl w)" if "0 \<le> w" for c w
    by (rule fl_nonneg, rule mult_nonneg_nonneg, rule n, rule fl_nonneg, rule that)
  have sum: "0 \<le> fl (x + y)" if "0 \<le> x" "0 \<le> y" for x y
    using that by (intro fl_nonneg add_nonneg_nonneg)
  have w_services: "0 \<le> w_services"
    unfolding w_services_def by (intro sum prod) simp_all
  have w_mobility: "0 \<le> w_mobility"
    unfolding w_mobility_def by (intro sum prod) simp_all
  have w_safety: "0 \<le> w_safety"
    unfolding w_safety_def by (intro sum prod) simp_all
  have w_environment: "0 \<le> w_environment"
    unfolding w_environment_def by (intro prod) simp_all
  define a :: real where "a = min 100 (of_int \<lfloor>w_services + 1 / 2\<rfloor>)"
  define b :: real where "b = min 100 (of_int \<lfloor>w_mobility + 1 / 2\<rfloor>)"
  define c :: real where "c = min 100 (of_int \<lfloor>w_safety + 1 / 2\<rfloor>)"
  define d :: real where "d = min 100 (of_int \<lfloor>w_environment + 1 / 2\<rfloor>)"
  define t where "t = fl (fl (fl (fl (a * fl 0.3) + fl (b * fl 0.25)) + fl (c * fl 0.25))
      + fl (d * fl 0.2))"
  have a: "0 \<le> a" "a \<le> 100" using w_services by (simp_all add: a_def)
  have b: "0 \<le> b" "b \<le> 100" using w_mobility by (simp_all add: b_def)
  have c: "0 \<le> c" "c \<le> 100" using w_safety by (simp_all add: c_def)
  have d: "0 \<le> d" "d \<le> 100" using w_environment by (simp_all add: d_def)
  have sub: "services sub = Num a" "mobility sub = Num b" "safety sub = Num c"
    "environment sub = Num d"
    by (simp_all add: sub_def calculateSubScores_def double_def js_round_def
        a_def b_def c_def d_def w_services_def w_mobility_def w_safety_def w_environment_def)
  have overall: "overall_score sub = Num t"
    by (simp add: overall_score_def sub double_def t_def)
  have p1: "0 \<le> fl (a * fl 0.3)" "fl (a * fl 0.3) \<le> 30"
  proof -
    show "0 \<le> fl (a * fl 0.3)" using a by (intro fl_nonneg mult_nonneg_nonneg) simp_all
    have "fl (a * fl 0.3) \<le> fl (100 * fl 0.3)"
      using a by (intro fl_mono mult_nonneg_nonneg mult_right_mono fl_nonneg) simp_all
    then show "fl (a * fl 0.3) \<le> 30" by (simp add: fl_literals fl_products)
  qed
  have p2: "0 \<le> fl (b * fl 0.25)" "fl (b * fl 0.25) \<le> 25"
  proof -
    show "0 \<le> fl (b * fl 0.25)" using b by (intro fl_nonneg mult_nonneg_nonneg) simp_all
    have "fl (b * fl 0.25) \<le> fl (100 * fl 0.25)"
      using b by (intro fl_mono mult_nonneg_nonneg mult_right_mono fl_nonneg) simp_all
    then show "fl (b * fl 0.25) \<le> 25" by (simp add: fl_literals fl_whole)
  qed
  have p3: "0 \<le> fl (c * fl 0.25)" "fl (c * fl 0.25) \<le> 25"
  proof -
    show "0 \<le> fl (c * fl 0.25)" using c by (intro fl_nonneg mult_nonneg_nonneg) simp_all
    have "fl (c * fl 0.25) \<le> fl (100 * fl 0.25)"
      using c by (intro fl_mono mult_nonneg_nonneg mult_right_mono fl_nonneg) simp_all
    then show "fl (c * fl 0.25) \<le> 25" by (simp add: fl_literals fl_whole)
  qed
  have p4: "0 \<le> fl (d * fl 0.2)" "fl (d * fl 0.2) \<le> 20"
  proof -
    show "0 \<le> fl (d * fl 0.2)" using d by (intro fl_nonneg mult_nonneg_nonneg) simp_all
    have "fl (d * fl 0.2) \<le> fl (100 * fl 0.2)"
      using d by (intro fl_mono mult_nonneg_nonneg mult_right_mono fl_nonneg) simp_all
    then show "fl (d * fl 0.2) \<le> 20" by (simp add: fl_literals fl_products)
  qed
  have step: "0 \<le> fl (x + y) \<and> fl (x + y) \<le> fl (m + k)"
    if "0 \<le> x" "x \<le> m" "0 \<le> y" "y \<le> k" for x y m k
    using that by (intro conjI fl_nonneg fl_mono) simp_all
  have s1: "0 \<le> fl (fl (a * fl 0.3) + fl (b * fl 0.25))"
    "fl (fl (a * fl 0.3) + fl (b * fl 0.25)) \<le> 55"
    using step [OF p1 p2] by (simp_all add: fl_whole)
  have s2: "0 \<le> fl (fl (fl (a * fl 0.3) + fl (b * fl 0.25)) + fl (c * fl 0.25))"
    "fl (fl (fl (a * fl 0.3) + fl (b * fl 0.25)) + fl (c * fl 0.25)) \<le> 80"
    using step [OF s1 p3] by (simp_all add: fl_whole)
  have t: "0 \<le> t" "t \<le> 100"
    unfolding t_def using step [OF s2 p4] by (simp_all add: fl_whole)
  have "\<exists>a b c d t. services sub = Num a \<and> mobility sub = Num b \<and> safety sub = Num c
          \<and> environment sub = Num d \<and> overall_score sub = Num t
          \<and> t = fl (fl (fl (fl (a * fl 0.3) + fl (b * fl 0.25)) + fl (c * fl 0.25))
                    + fl (d * fl 0.2))
          \<and> 0 \<le> a \<and> a \<le> 100 \<and> 0 \<le> b \<and> b \<le> 100 \<and> 0 \<le> c \<and> c \<le> 100
          \<and> 0 \<le> d \<and> d \<le> 100 \<and> 0 \<le> t \<and> t \<le> 100"
    using sub overall a b c d t t_def by blast
  moreover have "services sub = Num (min 100 (of_int \<lfloor>w_services + 1 / 2\<rfloor>))"
    "mobility sub = Num (min 100 (of_int \<lfloor>w_mobility + 1 / 2\<rfloor>))"
    "safety sub = Num (min 100 (of_int \<lfloor>w_safety + 1 / 2\<rfloor>))"
    "environment sub = Num (min 100 (of_int \<lfloor>w_environment + 1 / 2\<rfloor>))"
    using sub by (simp_all add: a_def b_def c_def d_def)
  ultimately show ?thesis
    unfolding w_services_def w_mobility_def w_safety_def w_environment_def
    by (intro conjI)
qed

text \<open>
  The theorem at sums that are not whole: \<open>7.75 * 1.2 + 0.25 * 0.8\<close> in doubles is
  9.499999999999998 and gives 9; \<open>0.5 * 1.5\<close> is 0.75 and gives 1; \<open>7.75 * 0.8\<close> in
  doubles is 6.2 and gives 6; \<open>1 * 2.5\<close> is the tie 2.5 and gives 3. The overall
  score of these sub-scores is the double 5.049999999999999. Sums of 1000 give
  sub-scores capped at 100, and the overall score 100.
\<close>

lemma fl_thousand:
  "fl 500 = 500"
  "fl (675539944105574375 / 1125899906842624) = 600"
  "fl (450359962737049625 / 562949953421312) = 800"
  "fl 1000 = 1000"
  "fl (675539944105574375 / 562949953421312) = 1200"
  "fl 1500 = 1500"
  "fl 2000 = 2000"
  "fl 2200 = 2200"
  "fl 2500 = 2500"
  "fl 2600 = 2600"
  "fl 3000 = 3000"
  "fl 3400 = 3400"
  "fl 3800 = 3800"
  "fl 4400 = 4400"
  using fl_eval [of "500" 44]
    fl_eval [of "675539944105574375 / 1125899906842624" 43]
    fl_eval [of "450359962737049625 / 562949953421312" 43]
    fl_eval [of "1000" 43]
    fl_eval [of "675539944105574375 / 562949953421312" 42]
    fl_eval [of "1500" 42]
    fl_eval [of "2000" 42]
    fl_eval [of "2200" 41]
    fl_eval [of "2500" 41]
    fl_eval [of "2600" 41]
    fl_eval [of "3000" 41]
    fl_eval [of "3400" 41]
    fl_eval [of "3800" 41]
    fl_eval [of "4400" 40]
  by (simp_all add: rne_def)

lemma sample_sums_values:
  "sample_sums Health = 7.75" "sample_sums Education = 0" "sample_sums Market = 0.25"
  "sample_sums Transport = 0.5" "sample_sums Walkability = 0" "sample_sums Recreation = 1"
  "sample_sums Safety = 0" "sample_sums Accessibility = 0" "sample_sums Police = 0"
  "sample_sums Religious = 0"
  by (simp_all add: sample_sums_def)

theorem C3_subscores_witness:
  "services (calculateSubScores (\<lambda>c. Num (sample_sums c))) = Num 9
   \<and> mobility (calculateSubScores (\<lambda>c. Num (sample_sums c))) = Num 1
   \<and> safety (calculateSubScores (\<lambda>c. Num (sample_sums c))) = Num 6
   \<and> environment (calculateSubScores (\<lambda>c. Num (sample_sums c))) = Num 3
   \<and> overall_score (calculateSubScores (\<lambda>c. Num (sample_sums c)))
       = Num (2842897264777625 / 562949953421312)
   \<and> services (calculateSubScores (\<lambda>c. Num 1000)) = Num 100
   \<and> mobility (calculateSubScores (\<lambda>c. Num 1000)) = Num 100
   \<and> safety (calculateSubScores (\<lambda>c. Num 1000)) = Num 100
   \<and> environment (calculateSubScores (\<lambda>c. Num 1000)) = Num 100
   \<and> overall_score (calculateSubScores (\<lambda>c. Num 1000)) = Num 100"
proof -
  have nn: "\<forall>c. 0 \<le> sample_sums c"
    by (simp add: sample_sums_def)
  have sample: "services (calculateSubScores (\<lambda>c. Num (sample_sums c))) = Num 9"
    "mobility (calculateSubScores (\<lambda>c. Num (sample_sums c))) = Num 1"
    "safety (calculateSubScores (\<lambda>c. Num (sample_sums c))) = Num 6"
    "environment (calculateSubScores (\<lambda>c. Num (sample_sums c))) = Num 3"
    using C3_subscores [OF nn]
    by (simp_all add: sample_sums_values fl_literals fl_sample)
  have thousand: "services (calculateSubScores (\<lambda>c. Num 1000)) = Num 100"
    "mobility (calculateSubScores (\<lambda>c. Num 1000)) = Num 100"
    "safety (calculateSubScores (\<lambda>c. Num 1000)) = Num 100"
    "environment (calculateSubScores (\<lambda>c. Num 1000)) = Num 100"
    using C3_subscores [of "\<lambda>c. 1000"]
    by (simp_all add: fl_literals fl_thousand)
  have "overall_score (calculateSubScores (\<lambda>c. Num (sample_sums c)))
       = Num (2842897264777625 / 562949953421312)"
    by (simp add: overall_score_def sample double_def fl_literals fl_sample)
  moreover have "overall_score (calculateSubScores (\<lambda>c. Num 1000)) = Num 100"
    by (simp add: overall_score_def thousand double_def fl_literals fl_whole fl_products)
  ultimately show ?thesis
    using sample thousand by (intro conjI)
qed



section \<open>Properties of the geo utility\<close>

text \<open>Bounds on \<open>pi\<close> from the Taylor polynomial of the sine at \<open>pi / 6\<close>.\<close>

lemma sin_taylor7:
  fixes x :: real
  shows "sin x \<le> x - x ^ 3 / 6 + x ^ 5 / 120 + \<bar>x\<bar> ^ 7 / 5040"
    and "x - x ^ 3 / 6 + x ^ 5 / 120 - \<bar>x\<bar> ^ 7 / 5040 \<le> sin x"
proof -
  have "(\<Sum>m<7. sin_coeff m * x ^ m) = x - x ^ 3 / 6 + x ^ 5 / 120"
    by (simp add: eval_nat_numeral sin_coeff_Suc cos_coeff_Suc field_simps)
  then have "\<bar>sin x - (x - x ^ 3 / 6 + x ^ 5 / 120)\<bar> \<le> \<bar>x\<bar> ^ 7 / 5040"
    using Maclaurin_sin_bound [of x 7] by (simp add: fact_numeral)
  then show "sin x \<le> x - x ^ 3 / 6 + x ^ 5 / 120 + \<bar>x\<bar> ^ 7 / 5040"
    and "x - x ^ 3 / 6 + x ^ 5 / 120 - \<bar>x\<bar> ^ 7 / 5040 \<le> sin x"
    by linarith+
qed

lemma pi_lower: "3.141 < pi"
proof (rule ccontr)
  assume "\<not> 3.141 < pi"
  then have le: "pi / 6 \<le> 0.5235" by simp
  have "0.5235 \<le> pi / 2" using pi_ge_two by simp
  then have "sin (pi / 6) \<le> sin (0.5235 :: real)"
    using le pi_ge_zero by (intro sin_monotone_2pi_le) simp_all
  also have "\<dots> \<le> 0.5235 - 0.5235 ^ 3 / 6 + 0.5235 ^ 5 / 120 + \<bar>0.5235\<bar> ^ 7 / 5040"
    by (rule sin_taylor7)
  also have "\<dots> < 1 / 2"
    by (simp add: power_numeral_reduce)
  finally show False by (simp add: sin_30)
qed

lemma pi_upper: "pi < 3.1425"
proof (rule ccontr)
  assume "\<not> pi < 3.1425"
  then have le: "0.52375 \<le> pi / 6" by simp
  have "(1 / 2 :: real) < 0.52375 - 0.52375 ^ 3 / 6 + 0.52375 ^ 5 / 120 - \<bar>0.52375\<bar> ^ 7 / 5040"
    by (simp add: power_numeral_reduce)
  also have "\<dots> \<le> sin (0.52375 :: real)"
    by (rule sin_taylor7)
  also have "\<dots> \<le> sin (pi / 6)"
    using le pi_ge_zero by (intro sin_monotone_2pi_le) simp_all
  finally show False by (simp add: sin_30)
qed

lemma calculateDistance_meridian:
  assumes "lat1 \<le> lat2" "lat2 - lat1 < 180"
  shows "calculateDistance lat1 lng lat2 lng = 6371000 * ((lat2 - lat1) * pi / 180)"
proof -
  define h where "h = (lat2 - lat1) * pi / 360"
  have h0: "0 \<le> h" using assms by (simp add: h_def)
  have "(lat2 - lat1) * pi < 180 * pi" using assms by simp
  then have h1: "h < pi / 2" by (simp add: h_def)
  have c: "0 < cos h" using h0 h1 by (intro cos_gt_zero_pi) simp_all
  have s: "0 \<le> sin h" using h0 h1 by (intro sin_ge_zero) simp_all
  have "1 - sin h * sin h = cos h * cos h"
    using sin_cos_squared_add [of h] by (simp add: power2_eq_square algebra_simps)
  then have cq: "sqrt (1 - sin h * sin h) = cos h" using c by simp
  have at: "atan2 (sin h) (cos h) = h"
    using c h0 h1 arctan_tan [of h] by (simp add: atan2_def tan_def)
  have "calculateDistance lat1 lng lat2 lng
      = 6371000 * (2 * atan2 (sqrt (sin h * sin h)) (sqrt (1 - sin h * sin h)))"
    by (simp add: calculateDistance_def Let_def h_def)
  also have "\<dots> = 6371000 * (2 * h)"
    using s by (simp add: cq at)
  finally show ?thesis by (simp add: h_def)
qed

section \<open>Properties of the facility processor\<close>

text \<open>
  What \<^verbatim>\<open>processFacilities\<close> returns is made of its elements and has passed the
  filter; its contribution is at least the floor of its category, unless the distance
  is beyond 1000 and rounds to it.
\<close>

lemma dedup_step_subset: "set (dedup_step acc f) \<subseteq> insert f (set acc)"
  using set_update_subset_insert [of acc _ f]
  by (auto simp: dedup_step_def split: option.splits)

lemma uniqueFacilities_subset: "set (foldl dedup_step acc fs) \<subseteq> set acc \<union> set fs"
proof (induction fs arbitrary: acc)
  case Nil
  then show ?case by simp
next
  case (Cons f fs)
  show ?case
    using Cons.IH [of "dedup_step acc f"] dedup_step_subset [of acc f] by auto
qed

lemma id_step_subset: "set (id_step acc f) \<subseteq> insert f (set acc)"
  by (auto simp: id_step_def split: option.splits)

lemma finalFacilities_subset: "set (foldl id_step acc fs) \<subseteq> set acc \<union> set fs"
proof (induction fs arbitrary: acc)
  case Nil
  then show ?case by simp
next
  case (Cons f fs)
  show ?case
    using Cons.IH [of "id_step acc f"] id_step_subset [of acc f] by auto
qed

lemma processFacilities_member:
  assumes "f \<in> set (processFacilities elements bucket userLat userLng)"
  shows "\<exists>i < length elements.
           f = to_facility bucket userLat userLng (elements ! i) i \<and> within_max_distance f"
proof -
  let ?fs = "filter within_max_distance
      (map (\<lambda>(element, index). to_facility bucket userLat userLng element index)
         (zip elements [0 ..< length elements]))"
  have "f \<in> set ?fs"
    using assms uniqueFacilities_subset [of "[]" ?fs]
      finalFacilities_subset [of "[]" "foldl dedup_step [] ?fs"]
    by (auto simp: processFacilities_def uniqueFacilities_def finalFacilities_def Let_def)
  then obtain e i where "(e, i) \<in> set (zip elements [0 ..< length elements])"
    and f: "f = to_facility bucket userLat userLng e i" and w: "within_max_distance f"
    by auto
  then have "i < length elements" "e = elements ! i"
    by (auto simp: set_zip)
  with f w show ?thesis by blast
qed

lemma actualCategory_cases:
  "\<exists>c. actualCategory e (category_name b) = category_name c"
proof -
  have "actualCategory e (category_name b) \<in>
      {category_name Education, category_name Police, category_name Market,
       category_name Health, category_name Transport, category_name Religious,
       category_name Recreation, category_name Walkability, category_name Accessibility,
       category_name Safety, category_name b}"
    by (simp add: actualCategory_def)
  then show ?thesis by blast
qed

lemma retained_contribution:
  assumes "f \<in> set (processFacilities elements (category_name bucket) userLat userLng)"
  shows "\<exists>c v. f_category f = category_name c \<and> f_contribution f = Num v
           \<and> (0.1 * maxContribution (decayConfig c) \<le> v \<or> v = 0 \<and> f_distance f = 1000)"
proof -
  obtain i where i: "i < length elements"
    and f: "f = to_facility (category_name bucket) userLat userLng (elements ! i) i"
    and w: "within_max_distance f"
    using processFacilities_member [OF assms] by blast
  let ?e = "elements ! i"
  obtain c where c: "actualCategory ?e (category_name bucket) = category_name c"
    using actualCategory_cases [of ?e bucket] by blast
  let ?d = "calculateDistance userLat userLng
      (coordinate (e_lat ?e) (map_option c_lat (e_center ?e)))
      (coordinate (e_lon ?e) (map_option c_lon (e_center ?e)))"
  have cat: "f_category f = category_name c"
    and con: "f_contribution f = Num (decayed (decayConfig c) ?d)"
    and dist: "f_distance f = js_round ?d"
    by (simp_all add: f to_facility_def Let_def c)
  have le: "js_round ?d \<le> 1000"
    using w by (simp add: within_max_distance_def get_property_def cat dist)
  show ?thesis
  proof (cases "?d \<le> 1000")
    case True
    then show ?thesis
      using cat con decayed_floor [of ?d c] by auto
  next
    case False
    then have "decayed (decayConfig c) ?d = 0"
      by (simp add: decayed_beyond)
    moreover have "js_round ?d = 1000"
      using False le by (simp add: js_round_def) linarith
    ultimately show ?thesis
      using cat con dist by auto
  qed
qed

text \<open>A list without duplicates is left as it is by the first deduplication pass.\<close>

lemma findIndex_None: "findIndex P xs = None \<longleftrightarrow> (\<forall>x\<in>set xs. \<not> P x)"
  by (induction xs) auto

lemma dedup_without_duplicates:
  assumes "\<forall>j < length fs. \<forall>i < j. \<not> isDuplicate (fs ! i) (fs ! j)"
  shows "uniqueFacilities fs = fs"
proof -
  have "foldl dedup_step (take n fs) (drop n fs) = fs" if "n \<le> length fs" for n
    using that
  proof (induction "length fs - n" arbitrary: n)
    case 0
    then show ?case by simp
  next
    case (Suc k)
    then have n: "n < length fs" by simp
    have "findIndex (\<lambda>existing. isDuplicate existing (fs ! n)) (take n fs) = None"
      using assms n by (auto simp: findIndex_None in_set_conv_nth)
    then have "dedup_step (take n fs) (fs ! n) = take (Suc n) fs"
      using n by (simp add: dedup_step_def take_Suc_conv_app_nth)
    moreover have "drop n fs = fs ! n # drop (Suc n) fs"
      using n by (simp add: Cons_nth_drop_Suc)
    ultimately show ?case
      using Suc.hyps(1) [of "Suc n"] Suc.hyps(2) n by simp
  qed
  from this [of 0] show ?thesis by (simp add: uniqueFacilities_def)
qed

lemma far_hospital_distance:
  "1000 < calculateDistance (-6.2) 106.8 (-6.191005) 106.8"
  "calculateDistance (-6.2) 106.8 (-6.191005) 106.8 < 1000.5"
proof -
  have d: "calculateDistance (-6.2) 106.8 (-6.191005) 106.8 = 6371000 * (0.008995 * pi / 180)"
    using calculateDistance_meridian [of "-6.2" "-6.191005" "106.8"] by simp
  show "1000 < calculateDistance (-6.2) 106.8 (-6.191005) 106.8"
    unfolding d using pi_lower by simp
  show "calculateDistance (-6.2) 106.8 (-6.191005) 106.8 < 1000.5"
    unfolding d using pi_upper by simp
qed

lemma far_hospital_classified:
  "actualCategory far_hospital ''health'' = ''health''"
  "facility_name far_hospital ''health'' = ''hospital''"
  "''health'' @ ''-'' @ show_int (id_or_index far_hospital i) = ''health-42''"
  by code_simp+

text \<open>
  Claim C7 says that every facility retained by \<^verbatim>\<open>processFacilities\<close> has a
  contribution of at least a tenth of its category's maximum, so never 0. The filter
  however tests the rounded distance, while the contribution is computed from the
  unrounded one: a hospital 1000.2 m away is beyond the maximum distance for the
  contribution (which is 0), rounds to 1000 m and is retained.
\<close>

theorem C7_retained_without_contribution:
  "processFacilities [far_hospital] ''health'' (-6.2) 106.8 =
     [\<lparr>f_id = ''health-42'', f_name = ''hospital'', f_category = ''health'',
       f_lng = 106.8, f_lat = -6.191005, f_distance = 1000, f_contribution = Num 0,
       f_tags = Some [''amenity'' \<mapsto> ''hospital'']\<rparr>]"
proof -
  let ?d = "calculateDistance (-6.2) 106.8 (-6.191005) 106.8"
  have r: "js_round ?d = 1000"
    using far_hospital_distance by (simp add: js_round_def floor_eq_iff)
  have c: "calculateDistanceContribution ?d ''health'' = Num 0"
    using far_hospital_distance(1) contribution_own [of ?d Health] by (simp add: decayed_def)
  have f: "to_facility ''health'' (-6.2) 106.8 far_hospital 0 =
     \<lparr>f_id = ''health-42'', f_name = ''hospital'', f_category = ''health'',
       f_lng = 106.8, f_lat = -6.191005, f_distance = 1000, f_contribution = Num 0,
       f_tags = Some [''amenity'' \<mapsto> ''hospital'']\<rparr>"
    unfolding to_facility_def Let_def far_hospital_classified
    using r c by (simp add: far_hospital_def coordinate_def)
  show ?thesis
    unfolding processFacilities_def Let_def
    using f by (simp add: within_max_distance_def get_property_def category_of_def
        uniqueFacilities_def finalFacilities_def dedup_step_def id_step_def)
qed

lemma calculateDistance_same [simp]: "calculateDistance lat lng lat lng = 0"
  by (simp add: calculateDistance_def atan2_def)

lemma contribution_at_origin:
  "calculateDistanceContribution 0 ''health'' = Num 10"
  "calculateDistanceContribution 0 ''market'' = Num 8"
  "calculateDistanceContribution 0 ''education'' = Num 10"
  by (simp_all add: calculateDistanceContribution_def get_property_def category_of_def decayed_def)

lemma apotek_classified:
  "actualCategory apotek ''health'' = ''market''"
  "facility_name apotek ''market'' = ''Apotek Sehat''"
  "''market'' @ ''-'' @ show_int (id_or_index apotek i) = ''market-1''"
  by code_simp+

lemma klinik_classified:
  "actualCategory klinik ''health'' = ''health''"
  "facility_name klinik ''health'' = ''Klinik Sehat''"
  "''health'' @ ''-'' @ show_int (id_or_index klinik i) = ''health-2''"
  by code_simp+

lemma sehat_classified:
  "actualCategory sehat ''health'' = ''health''"
  "facility_name sehat ''health'' = ''Sehat''"
  "''health'' @ ''-'' @ show_int (id_or_index sehat i) = ''health-3''"
  by code_simp+

lemma apotek_to_facility: "to_facility ''health'' (-6.2) 106.8 apotek i = apotek_facility"
  unfolding to_facility_def Let_def apotek_classified
  by (simp add: apotek_def apotek_facility_def coordinate_def contribution_at_origin js_round_def)

lemma klinik_to_facility: "to_facility ''health'' (-6.2) 106.8 klinik i = klinik_facility"
  unfolding to_facility_def Let_def klinik_classified
  by (simp add: klinik_def klinik_facility_def coordinate_def contribution_at_origin js_round_def)

lemma sehat_to_facility: "to_facility ''health'' (-6.2) 106.8 sehat i = sehat_facility"
  unfolding to_facility_def Let_def sehat_classified
  by (simp add: sehat_def sehat_facility_def coordinate_def contribution_at_origin js_round_def)

lemma names_normalised:
  "trim (toLowerCase ''Apotek Sehat'') = ''apotek sehat''"
  "trim (toLowerCase ''Klinik Sehat'') = ''klinik sehat''"
  "trim (toLowerCase ''Sehat'') = ''sehat''"
  by code_simp+

lemma names_similar:
  "includes_str ''apotek sehat'' ''sehat''"
  "includes_str ''klinik sehat'' ''sehat''"
  "\<not> includes_str ''apotek sehat'' ''klinik sehat''"
  "\<not> includes_str ''klinik sehat'' ''apotek sehat''"
  "\<not> includes_str ''apotek sehat'' ''sd''"
  "\<not> includes_str ''apotek sehat'' ''sekolah''"
  by code_simp+

lemma dup_facts:
  "\<not> isDuplicate apotek_facility klinik_facility"
  "isDuplicate apotek_facility sehat_facility"
  "isDuplicate sehat_facility klinik_facility"
  by (simp_all add: isDuplicate_def Let_def apotek_facility_def klinik_facility_def
      sehat_facility_def names_normalised names_similar)

lemma within_facts:
  "within_max_distance apotek_facility" "within_max_distance klinik_facility"
  "within_max_distance sehat_facility"
  by (simp_all add: within_max_distance_def get_property_def category_of_def
      apotek_facility_def klinik_facility_def sehat_facility_def)

lemma unique_three:
  "uniqueFacilities [apotek_facility, klinik_facility, sehat_facility]
     = [sehat_facility, klinik_facility]"
  using dup_facts
  by (simp add: uniqueFacilities_def dedup_step_def)
     (simp add: apotek_facility_def sehat_facility_def)

text \<open>
  Claim C6 says that the proximity and name deduplication is idempotent and leaves no
  two duplicates in the final list. When a facility replaces the first retained
  duplicate, it is not compared with the other retained facilities: here the clinic
  replaces the pharmacy and stays next to the practice, its duplicate; both are in
  the result of \<^verbatim>\<open>processFacilities\<close>, and a second deduplication of that result
  drops the practice.
\<close>

theorem C6_dedup_leaves_duplicates:
  "processFacilities [apotek, klinik, sehat] ''health'' (-6.2) 106.8
     = [sehat_facility, klinik_facility]
   \<and> isDuplicate sehat_facility klinik_facility
   \<and> uniqueFacilities [sehat_facility, klinik_facility] = [sehat_facility]"
proof (intro conjI)
  have "map (\<lambda>(element, index). to_facility ''health'' (-6.2) 106.8 element index)
          (zip [apotek, klinik, sehat] [0 ..< length [apotek, klinik, sehat]])
        = [apotek_facility, klinik_facility, sehat_facility]"
    using apotek_to_facility klinik_to_facility sehat_to_facility
    by (simp add: upt_rec)
  then show "processFacilities [apotek, klinik, sehat] ''health'' (-6.2) 106.8
     = [sehat_facility, klinik_facility]"
    unfolding processFacilities_def Let_def
    by (simp only: within_facts filter.simps if_True unique_three)
       (simp add: finalFacilities_def id_step_def sehat_facility_def klinik_facility_def)
  show "isDuplicate sehat_facility klinik_facility" by (rule dup_facts)
  show "uniqueFacilities [sehat_facility, klinik_facility] = [sehat_facility]"
    using dup_facts(3)
    by (simp add: uniqueFacilities_def dedup_step_def)
       (simp add: sehat_facility_def klinik_facility_def)
qed

section \<open>Properties of the fetch orchestrator\<close>

lemma queryOverpassAPI_fail:
  assumes "failing r"
    and "cache_get (s_cache s) (location_key lat lng (''overpass-'' @ hash (formatQuery q lat lng))) = None"
  shows "queryOverpassAPI r q lat lng s = (Inl (error_message r), s\<lparr>s_requests := s_requests s + 1\<rparr>)"
  using assms
  by (auto simp: queryOverpassAPI_def Let_def failing_def error_message_def split: response.splits)

lemma attempts_fail:
  assumes "retries - i = n" "i \<le> retries"
    and "\<forall>j. i \<le> j \<and> j \<le> retries \<longrightarrow> failing (net c j)"
    and "cache_get (s_cache s) (overpass_key c lat lng) = None"
  shows "attempts net c lat lng retries i s =
      (Inl (error_message (net c retries)),
       s\<lparr>s_requests := s_requests s + (n + 1),
         s_waited := s_waited s @ map (\<lambda>j. backoff (net c j) j) [i ..< retries]\<rparr>)"
  using assms
proof (induction n arbitrary: i s)
  case 0
  then have i: "i = retries" by simp
  have q: "queryOverpassAPI (net c retries) (generateOverpassQuery c) lat lng s
      = (Inl (error_message (net c retries)), s\<lparr>s_requests := s_requests s + 1\<rparr>)"
    using "0.prems" i by (intro queryOverpassAPI_fail) (simp_all add: overpass_key_def)
  show ?case
    by (subst attempts.simps) (simp add: i q Let_def)
next
  case (Suc n)
  then have lt: "i < retries" by simp
  have q: "queryOverpassAPI (net c i) (generateOverpassQuery c) lat lng s
      = (Inl (error_message (net c i)), s\<lparr>s_requests := s_requests s + 1\<rparr>)"
    using Suc.prems by (intro queryOverpassAPI_fail) (simp_all add: overpass_key_def)
  let ?s = "delay (backoff (net c i) i) (s\<lparr>s_requests := s_requests s + 1\<rparr>)"
  have step: "attempts net c lat lng retries i s = attempts net c lat lng retries (Suc i) ?s"
    using lt by (subst attempts.simps) (simp add: q Let_def backoff_def)
  have "attempts net c lat lng retries (Suc i) ?s =
      (Inl (error_message (net c retries)),
       ?s\<lparr>s_requests := s_requests ?s + (n + 1),
         s_waited := s_waited ?s @ map (\<lambda>j. backoff (net c j) j) [Suc i ..< retries]\<rparr>)"
    using Suc.prems lt by (intro Suc.IH) (simp_all add: delay_def)
  then show ?case
    using lt by (simp add: step delay_def upt_conv_Cons)
qed

lemma fetch_step_fail:
  assumes "\<forall>i\<le>3. failing (net c i)"
    and "cache_get (s_cache s) (overpass_key c lat lng) = None"
  shows "fetch_step net lat lng (results, s) c =
      (results @ [empty_result c],
       s\<lparr>s_requests := s_requests s + 4,
         s_waited := s_waited s @ [backoff (net c 0) 0, backoff (net c 1) 1, backoff (net c 2) 2]\<rparr>)"
proof -
  have "attempts net c lat lng 3 0 s =
      (Inl (error_message (net c 3)),
       s\<lparr>s_requests := s_requests s + (3 + 1),
         s_waited := s_waited s @ map (\<lambda>j. backoff (net c j) j) [0 ..< 3]\<rparr>)"
    using assms by (intro attempts_fail) simp_all
  moreover have "[0 ..< 3] = [0, 1, 2::nat]"
    by (simp add: upt_rec)
  ultimately show ?thesis
    using assms(2)
    by (simp add: fetch_step_def fetchCategoryWithRetry_def Let_def overpass_key_def empty_result_def)
qed


lemma category_of_eq_name: "category_of s = Some c \<longleftrightarrow> s = category_name c"
  by (cases c) (auto simp: category_of_def split: if_splits)

lemma count_facility_counts:
  "fst (count_facility (cnt, sc) f) k = cnt k + (if f_category f = category_name k then 1 else 0)"
proof (cases "category_of (f_category f)")
  case None
  then have "f_category f \<noteq> category_name k"
    by (auto simp: category_of_eq_name [symmetric])
  with None show ?thesis by (simp add: count_facility_def)
next
  case (Some c)
  then have "f_category f = category_name k \<longleftrightarrow> c = k"
    using category_of_eq_name [of "f_category f" k] by auto
  with Some show ?thesis by (auto simp: count_facility_def Let_def)
qed

lemma count_custom_counts:
  "fst (count_custom (cnt, sc) f) k = cnt k + (if f_category f = category_name k then 1 else 0)"
proof (cases "category_of (f_category f)")
  case None
  then have "f_category f \<noteq> category_name k"
    by (auto simp: category_of_eq_name [symmetric])
  with None show ?thesis by (simp add: count_custom_def)
next
  case (Some c)
  then have "f_category f = category_name k \<longleftrightarrow> c = k"
    using category_of_eq_name [of "f_category f" k] by auto
  with Some show ?thesis by (auto simp: count_custom_def)
qed

lemma foldl_count_facility:
  "fst (foldl count_facility t fs) k = fst t k + count_of k fs"
proof (induction fs arbitrary: t)
  case Nil
  then show ?case by (simp add: count_of_def)
next
  case (Cons f fs)
  obtain cnt sc where t: "t = (cnt, sc)" by (cases t)
  show ?case
    using Cons.IH [of "count_facility t f"] count_facility_counts [of cnt sc f k]
    by (simp add: t count_of_def)
qed

lemma foldl_count_custom:
  "fst (foldl count_custom t fs) k = fst t k + count_of k fs"
proof (induction fs arbitrary: t)
  case Nil
  then show ?case by (simp add: count_of_def)
next
  case (Cons f fs)
  obtain cnt sc where t: "t = (cnt, sc)" by (cases t)
  show ?case
    using Cons.IH [of "count_custom t f"] count_custom_counts [of cnt sc f k]
    by (simp add: t count_of_def)
qed

lemma count_of_append [simp]: "count_of k (xs @ ys) = count_of k xs + count_of k ys"
  by (simp add: count_of_def)

lemma foldl_process_result_counts:
  "fst (snd (foldl process_result (fs, t) rs)) k + count_of k fs
     = fst t k + count_of k (fst (foldl process_result (fs, t) rs))"
proof (induction rs arbitrary: fs t)
  case Nil
  then show ?case by simp
next
  case (Cons r rs)
  show ?case
  proof (cases "r_status r = ''fulfilled''")
    case True
    then have step: "process_result (fs, t) r
        = (fs @ r_facilities r, foldl count_facility t (r_facilities r))"
      by (simp add: process_result_def)
    show ?thesis
      using Cons.IH [of "fs @ r_facilities r" "foldl count_facility t (r_facilities r)"]
        foldl_count_facility [of t "r_facilities r" k]
      by (simp add: step)
  next
    case False
    then have "process_result (fs, t) r = (fs, t)"
      by (simp add: process_result_def)
    then show ?thesis using Cons.IH [of fs t] by simp
  qed
qed

lemma score_results_counts:
  "d_facilityCounts (fst (score_results rs allPOIs lat lng addr)) k
     = count_of k (snd (score_results rs allPOIs lat lng addr))"
proof -
  obtain fs t where f: "foldl process_result ([], (\<lambda>c. 0, \<lambda>c. Num 0)) rs = (fs, t)"
    by (cases "foldl process_result ([], (\<lambda>c. 0, \<lambda>c. Num 0)) rs")
  let ?cf = "map (custom_facility lat lng) (getPOIsNearLocation allPOIs lat lng 1000)"
  obtain cnt sc where c: "foldl count_custom t ?cf = (cnt, sc)"
    by (cases "foldl count_custom t ?cf")
  have "fst t k = count_of k fs"
    using foldl_process_result_counts [of "[]" "(\<lambda>c. 0, \<lambda>c. Num 0)" rs k]
    by (simp add: f count_of_def)
  moreover have "cnt k = fst t k + count_of k ?cf"
    using foldl_count_custom [of t ?cf k] by (simp add: c)
  ultimately show ?thesis
    by (simp add: score_results_def f c Let_def)
qed

lemma process_result_empty [simp]: "process_result acc (empty_result c) = acc"
  by (cases acc) (simp add: process_result_def empty_result_def)

lemma score_results_skip_empty:
  "score_results (xs @ empty_result c # ys) allPOIs lat lng addr
     = score_results (xs @ ys) allPOIs lat lng addr"
  by (simp add: score_results_def)


text \<open>The results of the loop depend on the state through the cache only.\<close>

lemma queryOverpassAPI_cache_only:
  assumes "s_cache s = s_cache t"
  shows "fst (queryOverpassAPI r q lat lng s) = fst (queryOverpassAPI r q lat lng t)
    \<and> s_cache (snd (queryOverpassAPI r q lat lng s)) = s_cache (snd (queryOverpassAPI r q lat lng t))"
  using assms
  by (auto simp: queryOverpassAPI_def Let_def split: option.splits response.splits)

lemma attempts_unfold:
  assumes "i \<le> retries"
    and "queryOverpassAPI (net c i) (generateOverpassQuery c) lat lng s = (a, s1)"
  shows "attempts net c lat lng retries i s =
     (case a of
        Inr elements \<Rightarrow>
          (Inr \<lparr>r_category = category_name c,
                r_facilities = processFacilities elements (category_name c) lat lng,
                r_status = ''fulfilled'', r_fromCache = Some False\<rparr>, s1)
      | Inl msg \<Rightarrow>
          if i = retries then (Inl msg, s1)
          else attempts net c lat lng retries (i + 1)
                 (delay (if includes_str msg ''429'' then 5000 else 2000 * (i + 1)) s1))"
  using assms by (subst attempts.simps) (simp add: Let_def split: sum.splits)

lemma attempts_cache_only:
  assumes "Suc retries - i = n" "s_cache s = s_cache t"
  shows "fst (attempts net c lat lng retries i s) = fst (attempts net c lat lng retries i t)
    \<and> s_cache (snd (attempts net c lat lng retries i s))
        = s_cache (snd (attempts net c lat lng retries i t))"
  using assms
proof (induction n arbitrary: i s t)
  case 0
  then have "\<not> i \<le> retries" by simp
  then show ?case
    using "0.prems" by (subst (1 2 3 4) attempts.simps) simp
next
  case (Suc n)
  then have le: "i \<le> retries" by simp
  let ?q = "generateOverpassQuery c"
  obtain a s1 where qs: "queryOverpassAPI (net c i) ?q lat lng s = (a, s1)"
    by (cases "queryOverpassAPI (net c i) ?q lat lng s")
  obtain b t1 where qt: "queryOverpassAPI (net c i) ?q lat lng t = (b, t1)"
    by (cases "queryOverpassAPI (net c i) ?q lat lng t")
  have same: "b = a" "s_cache s1 = s_cache t1"
    using queryOverpassAPI_cache_only [OF Suc.prems(2), of "net c i" ?q lat lng]
    by (simp_all add: qs qt)
  have us: "attempts net c lat lng retries i s =
     (case a of
        Inr elements \<Rightarrow>
          (Inr \<lparr>r_category = category_name c,
                r_facilities = processFacilities elements (category_name c) lat lng,
                r_status = ''fulfilled'', r_fromCache = Some False\<rparr>, s1)
      | Inl msg \<Rightarrow>
          if i = retries then (Inl msg, s1)
          else attempts net c lat lng retries (i + 1)
                 (delay (if includes_str msg ''429'' then 5000 else 2000 * (i + 1)) s1))"
    using le qs by (rule attempts_unfold)
  have ut: "attempts net c lat lng retries i t =
     (case a of
        Inr elements \<Rightarrow>
          (Inr \<lparr>r_category = category_name c,
                r_facilities = processFacilities elements (category_name c) lat lng,
                r_status = ''fulfilled'', r_fromCache = Some False\<rparr>, t1)
      | Inl msg \<Rightarrow>
          if i = retries then (Inl msg, t1)
          else attempts net c lat lng retries (i + 1)
                 (delay (if includes_str msg ''429'' then 5000 else 2000 * (i + 1)) t1))"
    using le qt [unfolded same(1)] by (rule attempts_unfold)
  show ?case
  proof (cases a)
    case (Inr elements)
    then show ?thesis
      unfolding us ut using same by simp
  next
    case (Inl msg)
    show ?thesis
    proof (cases "i = retries")
      case True
      then show ?thesis
        unfolding us ut using same Inl by simp
    next
      case False
      let ?w = "if includes_str msg ''429'' then 5000 else 2000 * (i + 1)"
      have "fst (attempts net c lat lng retries (i + 1) (delay ?w s1))
          = fst (attempts net c lat lng retries (i + 1) (delay ?w t1))
        \<and> s_cache (snd (attempts net c lat lng retries (i + 1) (delay ?w s1)))
          = s_cache (snd (attempts net c lat lng retries (i + 1) (delay ?w t1)))"
        using Suc.prems same le False by (intro Suc.IH) (simp_all add: delay_def)
      then show ?thesis
        unfolding us ut using False Inl by simp
    qed
  qed
qed

lemma fetch_step_cache_only:
  assumes "s_cache s = s_cache t"
  shows "fst (fetch_step net lat lng (rs, s) c) = fst (fetch_step net lat lng (rs, t) c)
    \<and> s_cache (snd (fetch_step net lat lng (rs, s) c))
        = s_cache (snd (fetch_step net lat lng (rs, t) c))"
proof -
  obtain a s1 where fs: "fetchCategoryWithRetry net c lat lng 3 s = (a, s1)"
    by (cases "fetchCategoryWithRetry net c lat lng 3 s")
  obtain b t1 where ft: "fetchCategoryWithRetry net c lat lng 3 t = (b, t1)"
    by (cases "fetchCategoryWithRetry net c lat lng 3 t")
  have "a = b \<and> s_cache s1 = s_cache t1"
    using fs ft assms
      attempts_cache_only [where retries = 3 and i = 0 and net = net and c = c
        and lat = lat and lng = lng, OF refl assms]
    by (auto simp: fetchCategoryWithRetry_def Let_def split: option.splits)
  then show ?thesis
    by (auto simp: fetch_step_def fs ft delay_def split: sum.splits)
qed

lemma fetch_loop_cache_only:
  assumes "s_cache s = s_cache t"
  shows "fst (foldl (fetch_step net lat lng) (rs, s) cs)
      = fst (foldl (fetch_step net lat lng) (rs, t) cs)"
  using assms
proof (induction cs arbitrary: rs s t)
  case Nil
  then show ?case by simp
next
  case (Cons c cs)
  obtain r1 s1 where a: "fetch_step net lat lng (rs, s) c = (r1, s1)"
    by (cases "fetch_step net lat lng (rs, s) c")
  obtain r2 t1 where b: "fetch_step net lat lng (rs, t) c = (r2, t1)"
    by (cases "fetch_step net lat lng (rs, t) c")
  have "r1 = r2" "s_cache s1 = s_cache t1"
    using fetch_step_cache_only [OF Cons.prems, of net lat lng rs c] by (simp_all add: a b)
  then show ?case
    using Cons.IH [of s1 t1 r2] by (simp add: a b)
qed

lemma fetch_step_appends:
  "fst (fetch_step net lat lng (rs, s) c) = rs @ fst (fetch_step net lat lng ([], s) c)
   \<and> snd (fetch_step net lat lng (rs, s) c) = snd (fetch_step net lat lng ([], s) c)"
  by (auto simp: fetch_step_def split: prod.splits sum.splits)

lemma fetch_loop_appends:
  "fst (foldl (fetch_step net lat lng) (rs, s) cs)
     = rs @ fst (foldl (fetch_step net lat lng) ([], s) cs)"
proof (induction cs arbitrary: rs s)
  case Nil
  then show ?case by simp
next
  case (Cons c cs)
  obtain r1 s1 where a: "fetch_step net lat lng ([], s) c = (r1, s1)"
    by (cases "fetch_step net lat lng ([], s) c")
  have b: "fetch_step net lat lng (rs, s) c = (rs @ r1, s1)"
    using fetch_step_appends [of net lat lng rs s c] a
    by (cases "fetch_step net lat lng (rs, s) c") simp
  show ?case
    using Cons.IH [of "rs @ r1" s1] Cons.IH [of r1 s1] by (simp add: a b)
qed

text \<open>
  Claim C4, as amended. If each of the four attempts for a category fails, with no cache
  entry for its query when its turn comes, the run does not stop: the loop makes exactly
  four requests, waits three times in between, and pushes an empty fulfilled result for
  the category. The results of the later categories are those they would have had
  without it, and the returned data is the one computed from the other results and
  the custom points. Every entry of \<^verbatim>\<open>facilityCounts\<close> is the number of returned
  facilities that carry the category. Processing the empty result of the failed query
  leaves the facility list, every count and every contribution sum as they were: the
  failed query adds nothing to them. The count of the category itself is fed by
  other queries and by custom points as well, and need not be 0.
\<close>

theorem C4_failed_category_degrades:
  fixes allPOIs :: "poi list" and addr :: string
  assumes order: "categories = pre @ c # post"
    and before: "foldl (fetch_step net lat lng) ([], s) pre = (done, s1)"
    and miss: "cache_get (s_cache s1) (overpass_key c lat lng) = None"
    and fail: "\<forall>i\<le>3. failing (net c i)"
  defines "rest \<equiv> fst (foldl (fetch_step net lat lng) ([], s1) post)"
  defines "outcome \<equiv> fst (calculateLivabilityScore net allPOIs lat lng addr s)"
  shows "fetch_step net lat lng (done, s1) c =
      (done @ [empty_result c],
       s1\<lparr>s_requests := s_requests s1 + 4,
          s_waited := s_waited s1
             @ [backoff (net c 0) 0, backoff (net c 1) 1, backoff (net c 2) 2]\<rparr>)
    \<and> fst (fetch_all net lat lng s) = done @ empty_result c # rest
    \<and> outcome = score_results (done @ rest) allPOIs lat lng addr
    \<and> (\<forall>k. d_facilityCounts (fst outcome) k = count_of k (snd outcome))
    \<and> (\<forall>acc. process_result acc (empty_result c) = acc)"
proof -
  let ?s2 = "s1\<lparr>s_requests := s_requests s1 + 4,
          s_waited := s_waited s1
             @ [backoff (net c 0) 0, backoff (net c 1) 1, backoff (net c 2) 2]\<rparr>"
  have step: "fetch_step net lat lng (done, s1) c = (done @ [empty_result c], ?s2)"
    using fail miss by (rule fetch_step_fail)
  have "fetch_all net lat lng s
      = foldl (fetch_step net lat lng) (done @ [empty_result c], ?s2) post"
    by (simp add: fetch_all_def order before step)
  moreover have "fst (foldl (fetch_step net lat lng) (done @ [empty_result c], ?s2) post)
      = (done @ [empty_result c]) @ fst (foldl (fetch_step net lat lng) ([], ?s2) post)"
    by (rule fetch_loop_appends)
  moreover have "fst (foldl (fetch_step net lat lng) ([], ?s2) post) = rest"
    unfolding rest_def by (rule fetch_loop_cache_only) simp
  ultimately have results: "fst (fetch_all net lat lng s) = done @ empty_result c # rest"
    by simp
  have out: "outcome = score_results (done @ rest) allPOIs lat lng addr"
    using results
    by (cases "fetch_all net lat lng s")
       (simp add: outcome_def calculateLivabilityScore_def score_results_skip_empty)
  have "\<forall>k. d_facilityCounts (fst outcome) k = count_of k (snd outcome)"
    unfolding out by (simp add: score_results_counts)
  moreover have "process_result acc (empty_result c) = acc" for acc
    by (rule process_result_empty)
  ultimately show ?thesis using step results out by simp
qed


lemma masjid_classified:
  "actualCategory masjid_kampus ''religious'' = ''education''"
  "facility_name masjid_kampus ''education'' = ''Masjid Kampus''"
  "''education'' @ ''-'' @ show_int (id_or_index masjid_kampus i) = ''education-9''"
  by code_simp+

lemma masjid_to_facility:
  "to_facility ''religious'' (-6.2) 106.8 masjid_kampus i = masjid_facility"
  unfolding to_facility_def Let_def masjid_classified
  by (simp add: masjid_kampus_def masjid_facility_def coordinate_def contribution_at_origin
      js_round_def)

lemma masjid_processed:
  "processFacilities [masjid_kampus] ''religious'' (-6.2) 106.8 = [masjid_facility]"
proof -
  have "within_max_distance masjid_facility"
    by (simp add: within_max_distance_def get_property_def category_of_def masjid_facility_def)
  then show ?thesis
    using masjid_to_facility [of 0]
    by (simp add: processFacilities_def uniqueFacilities_def finalFacilities_def
        dedup_step_def id_step_def)
qed

lemma only_religious_failing: "c \<noteq> Religious \<Longrightarrow> failing (only_religious c i)"
  by (simp add: only_religious_def failing_def)

lemma failing_loop:
  assumes "\<forall>c\<in>set cs. \<forall>i\<le>3. failing (net c i)" "s_cache s = Map.empty"
  shows "\<exists>s'. foldl (fetch_step net lat lng) (rs, s) cs = (rs @ map empty_result cs, s')
            \<and> s_cache s' = Map.empty"
  using assms
proof (induction cs arbitrary: rs s)
  case Nil
  then show ?case by simp
next
  case (Cons c cs)
  let ?s = "s\<lparr>s_requests := s_requests s + 4,
         s_waited := s_waited s @ [backoff (net c 0) 0, backoff (net c 1) 1, backoff (net c 2) 2]\<rparr>"
  have "fetch_step net lat lng (rs, s) c = (rs @ [empty_result c], ?s)"
    using Cons.prems by (intro fetch_step_fail) (simp_all add: cache_get_def)
  moreover have "\<exists>s'. foldl (fetch_step net lat lng) (rs @ [empty_result c], ?s) cs
        = ((rs @ [empty_result c]) @ map empty_result cs, s') \<and> s_cache s' = Map.empty"
    using Cons.prems by (intro Cons.IH) simp_all
  ultimately show ?case by simp
qed

lemma religious_step:
  assumes "s_cache s = Map.empty"
  shows "fst (fetch_step only_religious (-6.2) 106.8 (rs, s) Religious)
     = rs @ [\<lparr>r_category = ''religious'', r_facilities = [masjid_facility],
               r_status = ''fulfilled'', r_fromCache = Some False\<rparr>]"
proof -
  have "queryOverpassAPI (only_religious Religious 0) (generateOverpassQuery Religious)
          (-6.2) 106.8 s
      = (Inr [masjid_kampus],
         s\<lparr>s_requests := s_requests s + 1,
           s_cache := cache_set (s_cache s) (overpass_key Religious (-6.2) 106.8) [masjid_kampus]\<rparr>)"
    using assms
    by (simp add: queryOverpassAPI_def Let_def cache_get_def only_religious_def overpass_key_def)
  then have "attempts only_religious Religious (-6.2) 106.8 3 0 s
      = (Inr \<lparr>r_category = ''religious'', r_facilities = [masjid_facility],
               r_status = ''fulfilled'', r_fromCache = Some False\<rparr>,
         s\<lparr>s_requests := s_requests s + 1,
           s_cache := cache_set (s_cache s) (overpass_key Religious (-6.2) 106.8) [masjid_kampus]\<rparr>)"
    using masjid_processed by (subst attempts.simps) (simp add: Let_def)
  then show ?thesis
    using assms by (simp add: fetch_step_def fetchCategoryWithRetry_def Let_def cache_get_def)
qed

lemma only_religious_results:
  "fst (fetch_all only_religious (-6.2) 106.8 start)
     = map empty_result [Health, Education, Market, Transport, Walkability, Recreation, Safety,
          Accessibility, Police]
       @ [\<lparr>r_category = ''religious'', r_facilities = [masjid_facility],
            r_status = ''fulfilled'', r_fromCache = Some False\<rparr>]"
proof -
  let ?pre = "[Health, Education, Market, Transport, Walkability, Recreation, Safety,
          Accessibility, Police]"
  have "\<forall>c\<in>set ?pre. \<forall>i\<le>3. failing (only_religious c i)"
    by (simp add: only_religious_failing)
  moreover have "s_cache start = Map.empty"
    by (simp add: start_def)
  ultimately obtain s' where
    pre: "foldl (fetch_step only_religious (-6.2) 106.8) ([], start) ?pre
        = ([] @ map empty_result ?pre, s')" and empty: "s_cache s' = Map.empty"
    using failing_loop [of ?pre only_religious start "-6.2" "106.8" "[]"] by blast
  have cats: "categories = ?pre @ [Religious]"
    by (simp add: categories_def)
  let ?step = "fetch_step only_religious (-6.2) 106.8"
  have "fetch_all only_religious (-6.2) 106.8 start = foldl ?step ([], start) (?pre @ [Religious])"
    by (simp only: fetch_all_def cats)
  also have "\<dots> = foldl ?step (foldl ?step ([], start) ?pre) [Religious]"
    by (rule foldl_append)
  also have "\<dots> = foldl ?step (map empty_result ?pre, s') [Religious]"
    by (simp only: pre append_Nil)
  also have "\<dots> = ?step (map empty_result ?pre, s') Religious"
    by (simp only: foldl.simps)
  finally show ?thesis
    using religious_step [OF empty, of "map empty_result ?pre"] by (simp only:)
qed

lemma foldl_process_empty [simp]: "foldl process_result acc (map empty_result cs) = acc"
  by (induction cs) simp_all

lemma score_religious_only:
  "score_results
     (map empty_result cs
      @ [\<lparr>r_category = ''religious'', r_facilities = [masjid_facility],
           r_status = ''fulfilled'', r_fromCache = Some False\<rparr>]) [] lat lng addr
   = (\<lparr>d_overall = Num 3,
       d_subscores = \<lparr>services = Num 10, mobility = Num 0, safety = Num 0, environment = Num 0\<rparr>,
       d_location = Some \<lparr>l_address = addr, l_coordinates = \<lparr>co_lng = lng, co_lat = lat\<rparr>\<rparr>,
       d_facilityCounts = (\<lambda>c. 0)(Education := 1)\<rparr>,
      [masjid_facility])"
  by (simp add: score_results_def process_result_def getPOIsNearLocation_def
      count_facility_def category_of_def add_score_def masjid_facility_def
      calculateSubScores_def overall_score_def double_def js_round_def Let_def
      fl_literals fl_whole fl_products)


lemma fst_calculateLivabilityScore:
  "fst (calculateLivabilityScore net allPOIs lat lng addr s)
     = score_results (fst (fetch_all net lat lng s)) allPOIs lat lng addr"
  by (simp add: calculateLivabilityScore_def split: prod.splits)

theorem C4_failed_category_counted:
  "failing (only_religious Education 0) \<and> failing (only_religious Education 1)
   \<and> failing (only_religious Education 2) \<and> failing (only_religious Education 3)
   \<and> fst (calculateLivabilityScore only_religious [] (-6.2) 106.8 ''Jakarta'' start)
     = (\<lparr>d_overall = Num 3,
         d_subscores = \<lparr>services = Num 10, mobility = Num 0, safety = Num 0, environment = Num 0\<rparr>,
         d_location = Some \<lparr>l_address = ''Jakarta'',
                             l_coordinates = \<lparr>co_lng = 106.8, co_lat = -6.2\<rparr>\<rparr>,
         d_facilityCounts = (\<lambda>c. 0)(Education := 1)\<rparr>,
        [masjid_facility])"
  unfolding fst_calculateLivabilityScore only_religious_results score_religious_only
  by (simp add: only_religious_failing)

lemma rejected_backoff: "backoff (only_religious Health i) i = 2000 * (i + 1)"
proof -
  have "\<not> includes_str ''Failed to fetch'' ''429''" by code_simp
  then show ?thesis by (simp add: backoff_def only_religious_def error_message_def)
qed

lemma health_step:
  "foldl (fetch_step only_religious (-6.2) 106.8) ([], start) [Health]
     = ([empty_result Health], after_health)"
proof -
  have "fetch_step only_religious (-6.2) 106.8 ([], start) Health =
      ([] @ [empty_result Health],
       start\<lparr>s_requests := s_requests start + 4,
         s_waited := s_waited start @ [backoff (only_religious Health 0) 0,
           backoff (only_religious Health 1) 1, backoff (only_religious Health 2) 2]\<rparr>)"
    by (intro fetch_step_fail) (simp_all add: only_religious_failing start_def cache_get_def)
  then show ?thesis
    by (simp add: rejected_backoff start_def after_health_def)
qed

theorem C4_failed_category_degrades_witness:
  "fst (fetch_step only_religious (-6.2) 106.8 ([empty_result Health], after_health) Education)
      = [empty_result Health, empty_result Education]
   \<and> s_requests (snd (fetch_step only_religious (-6.2) 106.8
          ([empty_result Health], after_health) Education)) = 8
   \<and> fst (fetch_all only_religious (-6.2) 106.8 start) ! 1 = empty_result Education
   \<and> d_facilityCounts (fst (fst (calculateLivabilityScore only_religious [] (-6.2) 106.8
          ''Jakarta'' start))) Education
       = count_of Education (snd (fst (calculateLivabilityScore only_religious [] (-6.2) 106.8
          ''Jakarta'' start)))
   \<and> process_result ([masjid_facility], (\<lambda>c. 0)(Education := 1),
          (\<lambda>c. Num 0)(Education := Num 10)) (empty_result Education)
       = ([masjid_facility], (\<lambda>c. 0)(Education := 1), (\<lambda>c. Num 0)(Education := Num 10))"
proof -
  have order: "categories = [Health] @ Education
      # [Market, Transport, Walkability, Recreation, Safety, Accessibility, Police, Religious]"
    by (simp add: categories_def)
  have miss: "cache_get (s_cache after_health) (overpass_key Education (-6.2) 106.8) = None"
    by (simp add: after_health_def cache_get_def)
  have fail: "\<forall>i\<le>3. failing (only_religious Education i)"
    by (simp add: only_religious_failing)
  note th = C4_failed_category_degrades [OF order health_step miss fail, of "[]" "''Jakarta''"]
  have "fst (fetch_step only_religious (-6.2) 106.8 ([empty_result Health], after_health) Education)
      = [empty_result Health, empty_result Education]"
    using th [THEN conjunct1] by simp
  moreover have "s_requests (snd (fetch_step only_religious (-6.2) 106.8
          ([empty_result Health], after_health) Education)) = 8"
    using th [THEN conjunct1] by (simp add: after_health_def)
  moreover have "fst (fetch_all only_religious (-6.2) 106.8 start) ! 1 = empty_result Education"
    using th [THEN conjunct2, THEN conjunct1] by simp
  moreover have "d_facilityCounts (fst (fst (calculateLivabilityScore only_religious [] (-6.2) 106.8
          ''Jakarta'' start))) Education
       = count_of Education (snd (fst (calculateLivabilityScore only_religious [] (-6.2) 106.8
          ''Jakarta'' start)))"
    using th [THEN conjunct2, THEN conjunct2, THEN conjunct2, THEN conjunct1] by (rule spec)
  moreover have "process_result ([masjid_facility], (\<lambda>c. 0)(Education := 1),
          (\<lambda>c. Num 0)(Education := Num 10)) (empty_result Education)
       = ([masjid_facility], (\<lambda>c. 0)(Education := 1), (\<lambda>c. Num 0)(Education := Num 10))"
    using th [THEN conjunct2, THEN conjunct2, THEN conjunct2, THEN conjunct2] by (rule spec)
  ultimately show ?thesis by (intro conjI)
qed

section \<open>Properties of the custom point merge\<close>

text \<open>
  Except for walkability and safety, the custom loop and the loop over the query
  results count a facility alike.
\<close>

lemma custom_as_query_facility:
  assumes "f_category f \<noteq> ''walkability''" "f_category f \<noteq> ''safety''"
  shows "count_custom acc f = count_facility acc f"
proof (cases "category_of (f_category f)")
  case None
  then show ?thesis by (simp add: count_custom_def count_facility_def)
next
  case (Some c)
  then have "c \<noteq> Walkability" "c \<noteq> Safety"
    using assms by (auto simp: category_of_eq_name)
  with Some show ?thesis
    by (cases acc) (simp add: count_custom_def count_facility_def Let_def)
qed

lemma walk_custom_facility:
  "custom_facility (-6.2) 106.8 walk_poi =
     \<lparr>f_id = ''custom-1'', f_name = ''Trotoar (Custom)'', f_category = ''walkability'',
      f_lng = 106.8, f_lat = -6.2, f_distance = 0, f_contribution = Num 12,
      f_tags = Some [''custom'' \<mapsto> ''true'']\<rparr>"
  by (simp add: custom_facility_def walk_poi_def Let_def js_round_def
      calculateDistanceContribution_def get_property_def category_of_def decayed_def)

text \<open>
  Claim C8 says that custom points are accumulated with the same dampening as the
  facilities of the queries, a custom walkability point at a quarter of its
  contribution. The custom loop adds the full contribution: a walkability point at the
  origin brings 12 to the walkability sum, where the loop over the query results
  would add 3, and the mobility score is 6.
\<close>

theorem C8_custom_not_dampened:
  "getPOIsNearLocation [walk_poi] (-6.2) 106.8 1000 = [walk_poi]
   \<and> f_category (custom_facility (-6.2) 106.8 walk_poi) = ''walkability''
   \<and> f_contribution (custom_facility (-6.2) 106.8 walk_poi) = Num 12
   \<and> snd (count_custom (\<lambda>c. 0, \<lambda>c. Num 0) (custom_facility (-6.2) 106.8 walk_poi)) Walkability
       = Num 12
   \<and> snd (count_facility (\<lambda>c. 0, \<lambda>c. Num 0) (custom_facility (-6.2) 106.8 walk_poi)) Walkability
       = Num 3
   \<and> mobility (d_subscores (fst (score_results [] [walk_poi] (-6.2) 106.8 addr))) = Num 6"
proof (intro conjI)
  show near: "getPOIsNearLocation [walk_poi] (-6.2) 106.8 1000 = [walk_poi]"
    by (simp add: getPOIsNearLocation_def walk_poi_def)
  show "f_category (custom_facility (-6.2) 106.8 walk_poi) = ''walkability''"
    and "f_contribution (custom_facility (-6.2) 106.8 walk_poi) = Num 12"
    using walk_custom_facility by simp_all
  show cc: "snd (count_custom (\<lambda>c. 0, \<lambda>c. Num 0) (custom_facility (-6.2) 106.8 walk_poi)) Walkability
       = Num 12"
    using walk_custom_facility by (simp add: count_custom_def category_of_def add_score_def)
  show "snd (count_facility (\<lambda>c. 0, \<lambda>c. Num 0) (custom_facility (-6.2) 106.8 walk_poi)) Walkability
       = Num 3"
    using walk_custom_facility
    by (simp add: count_facility_def category_of_def add_score_def ftag_is_def Let_def)
  show "mobility (d_subscores (fst (score_results [] [walk_poi] (-6.2) 106.8 addr))) = Num 6"
    using near walk_custom_facility
    by (simp add: score_results_def count_custom_def category_of_def add_score_def
        calculateSubScores_def double_def js_round_def Let_def fl_literals fl_whole)
qed

lemma unknown_category_health_fallback:
  assumes "category_of cat = None" "cat \<notin> set object_prototype_names"
  shows "calculateDistanceContribution d cat = Num (decayed (decayConfig Health) d)"
  using assms by (simp add: calculateDistanceContribution_def get_property_def)

lemma custom_unknown_category_frame:
  assumes "category_of (p_category p) = None" "p_category p \<noteq> ''custom''"
  shows "count_custom acc (custom_facility lat lng p) = acc"
  using assms by (cases acc) (simp add: count_custom_def custom_facility_def Let_def)

lemma odd_custom_facility:
  "custom_facility (-6.2) 106.8 odd_poi =
     \<lparr>f_id = ''custom-2'', f_name = ''Pos (Custom)'', f_category = ''toString'',
      f_lng = 106.8, f_lat = -6.2, f_distance = 0, f_contribution = NaN,
      f_tags = Some [''custom'' \<mapsto> ''true'']\<rparr>"
  by (simp add: custom_facility_def odd_poi_def Let_def js_round_def
      calculateDistanceContribution_def get_property_def category_of_def
      object_prototype_names_def)

text \<open>
  Claim C10 says that a custom point whose category is neither one of the ten nor
  \<^verbatim>\<open>custom\<close> changes no count and no sum, and that its facility is appended with a
  contribution computed from the health fallback. Counts and sums are indeed
  unchanged; but for a category that names an inherited property, here
  \<^verbatim>\<open>toString\<close>, the lookup does not fall back to health and the contribution is
  \<^verbatim>\<open>NaN\<close>.
\<close>

theorem C10_inherited_category_not_a_number:
  "category_of (p_category odd_poi) = None \<and> p_category odd_poi \<noteq> ''custom''
   \<and> f_contribution (custom_facility (-6.2) 106.8 odd_poi) = NaN
   \<and> count_custom (cnt, sc) (custom_facility (-6.2) 106.8 odd_poi) = (cnt, sc)
   \<and> snd (score_results [] [odd_poi] (-6.2) 106.8 addr)
       = [\<lparr>f_id = ''custom-2'', f_name = ''Pos (Custom)'', f_category = ''toString'',
           f_lng = 106.8, f_lat = -6.2, f_distance = 0, f_contribution = NaN,
           f_tags = Some [''custom'' \<mapsto> ''true'']\<rparr>]"
proof (intro conjI)
  show c: "category_of (p_category odd_poi) = None" and n: "p_category odd_poi \<noteq> ''custom''"
    by (simp_all add: odd_poi_def category_of_def)
  show "f_contribution (custom_facility (-6.2) 106.8 odd_poi) = NaN"
    using odd_custom_facility by simp
  show "count_custom (cnt, sc) (custom_facility (-6.2) 106.8 odd_poi) = (cnt, sc)"
    using c n by (rule custom_unknown_category_frame)
  have "getPOIsNearLocation [odd_poi] (-6.2) 106.8 1000 = [odd_poi]"
    by (simp add: getPOIsNearLocation_def odd_poi_def)
  then show "snd (score_results [] [odd_poi] (-6.2) 106.8 addr)
       = [\<lparr>f_id = ''custom-2'', f_name = ''Pos (Custom)'', f_category = ''toString'',
           f_lng = 106.8, f_lat = -6.2, f_distance = 0, f_contribution = NaN,
           f_tags = Some [''custom'' \<mapsto> ''true'']\<rparr>]"
    using odd_custom_facility
    by (simp add: score_results_def Let_def split: prod.splits)
qed

section \<open>Properties of the cache key\<close>

lemma hash_step_int: "hash_step (word_of_int h) c = word_of_int (hash_int_step h c)"
proof -
  have "(word_of_int ((h * 31 + int (of_char c)) mod 2 ^ LENGTH(32)) :: 32 word)
      = word_of_int (h * 31 + int (of_char c))"
    by (simp only: word_of_int_eq_iff take_bit_eq_mod [symmetric] take_bit_take_bit min.idem)
  then show ?thesis
    by (simp add: hash_step_def hash_int_step_def push_bit_eq_mult)
qed

lemma foldl_hash_step_int:
  "foldl hash_step (word_of_int h) str = word_of_int (foldl hash_int_step h str)"
  by (induction str arbitrary: h) (simp_all add: hash_step_int)

lemma hash_int:
  "hash str =
     show_int ((foldl hash_int_step 0 str + 2147483648) mod 4294967296 - 2147483648)"
  using foldl_hash_step_int [of 0 str]
  by (simp add: hash_def sint_sbintrunc' signed_take_bit_eq_take_bit_shift take_bit_eq_mod)

lemma fold_police_1:
  "foldl hash_int_step 0
     (replaceAll ''{lng}'' ''106.8'' (replaceAll ''{lat}'' ''-6.2001'' (generateOverpassQuery Police)))
     = 59403597"
  by code_simp

lemma fold_police_2:
  "foldl hash_int_step 0
     (replaceAll ''{lng}'' ''106.8'' (replaceAll ''{lat}'' ''-6.2004'' (generateOverpassQuery Police)))
     = 1685075751"
  by code_simp

lemma hash_police_1:
  "hash (replaceAll ''{lng}'' ''106.8'' (replaceAll ''{lat}'' ''-6.2001'' (generateOverpassQuery Police)))
     = ''59403597''"
  unfolding hash_int fold_police_1
  by (simp add: show_int_def show_nat.simps digit_char_def)

lemma hash_police_2:
  "hash (replaceAll ''{lng}'' ''106.8'' (replaceAll ''{lat}'' ''-6.2004'' (generateOverpassQuery Police)))
     = ''1685075751''"
  unfolding hash_int fold_police_2
  by (simp add: show_int_def show_nat.simps digit_char_def)


lemma frac_len_stop: "a * 10 ^ k = of_int \<lfloor>a * 10 ^ k\<rfloor> \<Longrightarrow> frac_len a k = k"
  by (subst frac_len.simps) simp

lemma frac_len_step:
  "k < 17 \<Longrightarrow> a * 10 ^ k \<noteq> of_int \<lfloor>a * 10 ^ k\<rfloor> \<Longrightarrow> frac_len a k = frac_len a (Suc k)"
  by (subst frac_len.simps) simp

lemma frac_len_values:
  "frac_len 6.2001 0 = 4" "frac_len 6.2004 0 = 4" "frac_len 106.8 0 = 1"
  by (simp_all add: frac_len_step frac_len_stop)

lemma digits_values:
  "show_nat 6 = ''6''" "show_nat 106 = ''106''" "show_nat 8 = ''8''" "show_nat 2001 = ''2001''"
  "show_nat 2004 = ''2004''" "show_nat 200 = ''200''" "show_nat 800 = ''800''"
  by (simp_all add: show_nat.simps digit_char_def)

lemma toString_values:
  "number_toString (-6.2001) = ''-6.2001''"
  "number_toString (-6.2004) = ''-6.2004''"
  "number_toString 106.8 = ''106.8''"
  using frac_len_values
  by (simp_all add: number_toString_def Let_def digits_values pad_left_def)

lemma toFixed3_values:
  "toFixed3 (-6.2001) = ''-6.200''"
  "toFixed3 (-6.2004) = ''-6.200''"
  "toFixed3 106.8 = ''106.800''"
  by (simp_all add: toFixed3_def Let_def digits_values pad_left_def)

lemma key_values:
  "generateKey (''location-'' @ ''overpass-'' @ ''59403597'')
       [(''lat'', ''-6.200''), (''lng'', ''106.800'')]
    = ''location-overpass-59403597:lat:-6.200|lng:106.800''"
  "generateKey (''location-'' @ ''overpass-'' @ ''1685075751'')
       [(''lat'', ''-6.200''), (''lng'', ''106.800'')]
    = ''location-overpass-1685075751:lat:-6.200|lng:106.800''"
  by code_simp+

lemma location_key_rounded:
  assumes "toFixed3 lat = toFixed3 lat'" "toFixed3 lng = toFixed3 lng'"
  shows "location_key lat lng dataType = location_key lat' lng' dataType"
  using assms by (simp add: location_key_def)

text \<open>
  Claim C9 says that two requests for a category whose coordinates agree after rounding
  to three decimals use the same cache entry. The key does end in the rounded
  coordinates, but its data type is the hash of the query text, into which the
  unrounded coordinates are written: the latitudes -6.2001 and -6.2004 both round to
  -6.200 and give different keys for the police query, so that what is cached for
  the one is not found for the other.
\<close>

theorem C9_nearby_requests_miss:
  "toFixed3 (-6.2001) = toFixed3 (-6.2004)
   \<and> overpass_key Police (-6.2001) 106.8 = ''location-overpass-59403597:lat:-6.200|lng:106.800''
   \<and> overpass_key Police (-6.2004) 106.8 = ''location-overpass-1685075751:lat:-6.200|lng:106.800''
   \<and> cache_get (cache_set Map.empty (overpass_key Police (-6.2001) 106.8) elements)
         (overpass_key Police (-6.2004) 106.8) = None"
proof -
  have k1: "overpass_key Police (-6.2001) 106.8
      = ''location-overpass-59403597:lat:-6.200|lng:106.800''"
    unfolding overpass_key_def location_key_def formatQuery_def toString_values
      toFixed3_values hash_police_1
    by (rule key_values)
  have k2: "overpass_key Police (-6.2004) 106.8
      = ''location-overpass-1685075751:lat:-6.200|lng:106.800''"
    unfolding overpass_key_def location_key_def formatQuery_def toString_values
      toFixed3_values hash_police_2
    by (rule key_values)
  have "toFixed3 (-6.2001) = toFixed3 (-6.2004)"
    by (simp only: toFixed3_values)
  moreover have "cache_get (cache_set Map.empty (overpass_key Police (-6.2001) 106.8) elements)
         (overpass_key Police (-6.2004) 106.8) = None"
    unfolding k1 k2 by (simp add: cache_get_def cache_set_def getStorageKey_def)
  ultimately show ?thesis
    using k1 k2 by (intro conjI)
qed

end
